theory Spec2Isabelle
  imports Complex_Main "HOL-Library.Word" "HOL-Library.Sublist"
begin

section \<open>Python values\<close>

text \<open>
  Event payloads, transcription texts and gateway results are dynamically typed in the
  source.  They are modelled by one datatype of Python values; a dict with string keys is an
  association list, read with \<open>map_of\<close>.
\<close>

type_synonym byte = "8 word"
type_synonym int16 = "16 word"

datatype pyval =
    PNone
  | PBool bool
  | PInt int
  | PFloat real
  | PStr string
  | PBytes "byte list"
  | PList "pyval list"
  | PDict "(string \<times> pyval) list"

text \<open>Python truthiness, as used by \<open>if x:\<close> and \<open>not x\<close>.\<close>

fun truthy :: "pyval \<Rightarrow> bool" where
  "truthy PNone = False"
| "truthy (PBool b) = b"
| "truthy (PInt i) = (i \<noteq> 0)"
| "truthy (PFloat r) = (r \<noteq> 0)"
| "truthy (PStr s) = (s \<noteq> [])"
| "truthy (PBytes bs) = (bs \<noteq> [])"
| "truthy (PList xs) = (xs \<noteq> [])"
| "truthy (PDict kvs) = (kvs \<noteq> [])"

text \<open>
  Exceptions.  \<open>PyException msg\<close> is an instance of (a subclass of) \<open>Exception\<close> whose
  \<open>str()\<close> is \<open>msg\<close>.  \<open>CancelledError\<close> is \<open>asyncio.CancelledError\<close>, the
  cancellation signal of a task: it derives from \<open>BaseException\<close>, so that
  \<open>except Exception\<close> does not catch it.
\<close>

datatype exc = PyException string | CancelledError

section \<open>core/event\_bus.py\<close>

record event =
  ev_type :: string
  ev_payload :: pyval

text \<open>
  \<open>subscribers\<close> is the dict from event type to the list of that type's queues, and a
  queue (an unbounded \<open>asyncio.Queue\<close>) is the list of the events waiting in it, oldest
  first.  A queue object is created in \<open>listen\<close> and appended to exactly one list, so a queue
  is identified by its type and its position in that list.
\<close>

record event_bus =
  subscribers :: "string \<rightharpoonup> event list list"
  default_queue :: "event list"

definition EventBus_init :: event_bus where
  "EventBus_init = \<lparr>subscribers = Map.empty, default_queue = []\<rparr>"

definition emit :: "event_bus \<Rightarrow> string \<Rightarrow> pyval \<Rightarrow> event_bus" where
  "emit bus event_type payload =
     (let event = \<lparr>ev_type = event_type, ev_payload = payload\<rparr>;
          subs = (case subscribers bus event_type of
                    None \<Rightarrow> subscribers bus
                  | Some queues \<Rightarrow>
                      (subscribers bus)(event_type \<mapsto> map (\<lambda>queue. queue @ [event]) queues))
      in bus\<lparr>subscribers := subs, default_queue := default_queue bus @ [event]\<rparr>)"

datatype queue_ref = DefaultQueue | SubscriberQueue string nat

text \<open>
  \<open>listen\<close> is a coroutine: it runs without suspension up to \<open>await queue.get()\<close>, and
  is resumed with the head of its queue once the queue is not empty.  \<open>listen_subscribe\<close> is
  the first part and returns the queue the coroutine then waits on; \<open>queue_get\<close> is the
  second part, \<open>None\<close> while the queue is empty (the coroutine stays suspended).
  The test \<open>if event_type:\<close> is Python truthiness: \<open>None\<close> and the empty string both
  take the \<open>else\<close> branch.
\<close>

definition listen_subscribe :: "event_bus \<Rightarrow> string option \<Rightarrow> event_bus \<times> queue_ref" where
  "listen_subscribe bus event_type =
     (case event_type of
        None \<Rightarrow> (bus, DefaultQueue)
      | Some t \<Rightarrow>
          if t \<noteq> [] then
            (let queues = (case subscribers bus t of None \<Rightarrow> [] | Some qs \<Rightarrow> qs)
             in (bus\<lparr>subscribers := (subscribers bus)(t \<mapsto> queues @ [[]])\<rparr>,
                 SubscriberQueue t (length queues)))
          else (bus, DefaultQueue))"

definition queue_contents :: "event_bus \<Rightarrow> queue_ref \<Rightarrow> event list option" where
  "queue_contents bus r =
     (case r of
        DefaultQueue \<Rightarrow> Some (default_queue bus)
      | SubscriberQueue t i \<Rightarrow>
          (case subscribers bus t of
             None \<Rightarrow> None
           | Some qs \<Rightarrow> if i < length qs then Some (qs ! i) else None))"

definition queue_get :: "event_bus \<Rightarrow> queue_ref \<Rightarrow> (event \<times> event_bus) option" where
  "queue_get bus r =
     (case r of
        DefaultQueue \<Rightarrow>
          (case default_queue bus of
             [] \<Rightarrow> None
           | e # rest \<Rightarrow> Some (e, bus\<lparr>default_queue := rest\<rparr>))
      | SubscriberQueue t i \<Rightarrow>
          (case subscribers bus t of
             None \<Rightarrow> None
           | Some qs \<Rightarrow>
               if i < length qs then
                 (case qs ! i of
                    [] \<Rightarrow> None
                  | e # rest \<Rightarrow> Some (e, bus\<lparr>subscribers := (subscribers bus)(t \<mapsto> qs[i := rest])\<rparr>))
               else None))"

text \<open>
  The operations other tasks can perform on the bus while a listener is suspended, used to
  state what happens to a queue over time.
\<close>

datatype bus_op = Emit string pyval | Listen "string option" | Get queue_ref

fun apply_op :: "event_bus \<Rightarrow> bus_op \<Rightarrow> event_bus" where
  "apply_op bus (Emit t p) = emit bus t p"
| "apply_op bus (Listen t) = fst (listen_subscribe bus t)"
| "apply_op bus (Get r) = (case queue_get bus r of None \<Rightarrow> bus | Some (e, bus') \<Rightarrow> bus')"

definition apply_ops :: "event_bus \<Rightarrow> bus_op list \<Rightarrow> event_bus" where
  "apply_ops bus ops = foldl apply_op bus ops"

definition emit_all :: "event_bus \<Rightarrow> (string \<times> pyval) list \<Rightarrow> event_bus" where
  "emit_all bus evs = foldl (\<lambda>b (t, p). emit b t p) bus evs"

definition mk_event :: "string \<times> pyval \<Rightarrow> event" where
  "mk_event tp = \<lparr>ev_type = fst tp, ev_payload = snd tp\<rparr>"

definition registered :: "event_bus \<Rightarrow> queue_ref \<Rightarrow> bool" where
  "registered bus r = (queue_contents bus r \<noteq> None)"

section \<open>Operations on Python values\<close>

text \<open>
  The operations of the source on dynamically typed values, with the exception Python raises
  when the value has the wrong type.  The messages of these built-in exceptions are
  abbreviated; none of them contains the words the chat error handler looks for.
  Characters are code points below 256.
\<close>

definition isspace :: "char \<Rightarrow> bool" where
  "isspace c = (of_char c \<in> {9, 10, 11, 12, 13, 28, 29, 30, 31, 32, 133, 160 :: nat})"

definition bytes_isspace :: "byte \<Rightarrow> bool" where
  "bytes_isspace b = (unat b \<in> {9, 10, 11, 12, 13, 32})"

definition strip :: "('a \<Rightarrow> bool) \<Rightarrow> 'a list \<Rightarrow> 'a list" where
  "strip sp s = rev (dropWhile sp (rev (dropWhile sp s)))"

definition lower_char :: "char \<Rightarrow> char" where
  "lower_char c =
     (let n = (of_char c :: nat)
      in if (65 \<le> n \<and> n \<le> 90) \<or> (192 \<le> n \<and> n \<le> 222 \<and> n \<noteq> 215)
         then char_of (n + 32) else c)"

definition lower :: "string \<Rightarrow> string" where
  "lower s = map lower_char s"

definition py_strip :: "pyval \<Rightarrow> exc + pyval" where
  "py_strip v =
     (case v of
        PStr s \<Rightarrow> Inr (PStr (strip isspace s))
      | PBytes bs \<Rightarrow> Inr (PBytes (strip bytes_isspace bs))
      | _ \<Rightarrow> Inl (PyException ''AttributeError: object has no attribute strip''))"

definition dict_get :: "pyval \<Rightarrow> string \<Rightarrow> pyval \<Rightarrow> exc + pyval" where
  "dict_get v k dflt =
     (case v of
        PDict kvs \<Rightarrow> Inr (case map_of kvs k of None \<Rightarrow> dflt | Some x \<Rightarrow> x)
      | _ \<Rightarrow> Inl (PyException ''AttributeError: object has no attribute get''))"

definition py_contains :: "string \<Rightarrow> pyval \<Rightarrow> exc + bool" where
  "py_contains k v =
     (case v of
        PDict kvs \<Rightarrow> Inr (map_of kvs k \<noteq> None)
      | PStr s \<Rightarrow> Inr (sublist k s)
      | PList xs \<Rightarrow> Inr (PStr k \<in> set xs)
      | _ \<Rightarrow> Inl (PyException ''TypeError: argument is not iterable''))"

definition py_getitem :: "pyval \<Rightarrow> string \<Rightarrow> exc + pyval" where
  "py_getitem v k =
     (case v of
        PDict kvs \<Rightarrow>
          (case map_of kvs k of
             None \<Rightarrow> Inl (PyException (''KeyError: '' @ k))
           | Some x \<Rightarrow> Inr x)
      | _ \<Rightarrow> Inl (PyException ''TypeError: indices must be integers''))"

definition py_len :: "pyval \<Rightarrow> exc + nat" where
  "py_len v =
     (case v of
        PStr s \<Rightarrow> Inr (length s)
      | PBytes bs \<Rightarrow> Inr (length bs)
      | PList xs \<Rightarrow> Inr (length xs)
      | PDict kvs \<Rightarrow> Inr (length kvs)
      | _ \<Rightarrow> Inl (PyException ''TypeError: object has no len()''))"

text \<open>Whether a value is a number.\<close>

fun numeric :: "pyval \<Rightarrow> bool" where
  "numeric (PBool b) = True"
| "numeric (PInt i) = True"
| "numeric (PFloat r) = True"
| "numeric v = False"

section \<open>modules/audio\_input/wake\_word\_vad.py\<close>

subsection \<open>Buffers and sample framing\<close>

text \<open>
  \<open>collections.deque(maxlen=n)\<close>: \<open>extend\<close> appends on the right and discards on the
  left what exceeds \<open>maxlen\<close>.
\<close>

record 'a deque =
  items :: "'a list"
  maxlen :: nat

definition deque_extend :: "'a deque \<Rightarrow> 'a list \<Rightarrow> 'a deque" where
  "deque_extend d xs =
     d\<lparr>items := (let ys = items d @ xs in drop (length ys - maxlen d) ys)\<rparr>"

definition deque_clear :: "'a deque \<Rightarrow> 'a deque" where
  "deque_clear d = d\<lparr>items := []\<rparr>"

text \<open>
  \<open>np.frombuffer(buf, dtype=np.int16)\<close> reads two bytes per sample, low byte first, and
  raises \<open>ValueError\<close> when the length of the buffer is odd; \<open>tobytes\<close> of an
  \<open>int16\<close> array writes them back.
\<close>

fun int16_pairs :: "byte list \<Rightarrow> int16 list" where
  "int16_pairs (lo # hi # buf) = or (push_bit 8 (ucast hi)) (ucast lo) # int16_pairs buf"
| "int16_pairs buf = []"

definition frombuffer :: "byte list \<Rightarrow> exc + int16 list" where
  "frombuffer buf =
     (if even (length buf) then Inr (int16_pairs buf)
      else Inl (PyException ''ValueError: buffer size must be a multiple of element size''))"

definition tobytes :: "int16 list \<Rightarrow> byte list" where
  "tobytes pcm = concat (map (\<lambda>s. [ucast s, ucast (drop_bit 8 s)]) pcm)"

subsection \<open>The module's state\<close>

record ModuleBase =
  event_bus :: event_bus
  running :: bool

record WakeWordVADModule = ModuleBase +
  rate :: nat
  vad_threshold :: real
  silence_timeout_ms :: real
  speech_buffer :: "int16 deque"
  last_speech_time :: "real option"
  speech_detected :: bool
  vad_buffer :: "int16 deque"
  sample_width :: nat
  channels :: nat

text \<open>
  \<open>__init__\<close>.  The field \<open>event_bus\<close> holds the state of the bus the module publishes
  to.  For a sample rate that is a natural number, \<open>int(rate * 10)\<close> is
  \<open>rate * 10\<close> and \<open>int(rate * 0.1)\<close> is \<open>rate div 10\<close>.  Times are the values of
  \<open>time.time() * 1000\<close>, in milliseconds, taken as real numbers.
\<close>

definition WakeWordVADModule_init :: "event_bus \<Rightarrow> nat \<Rightarrow> real \<Rightarrow> real \<Rightarrow> WakeWordVADModule" where
  "WakeWordVADModule_init bus r threshold timeout_ms =
     \<lparr>event_bus = bus, running = False,
      rate = r, vad_threshold = threshold, silence_timeout_ms = timeout_ms,
      speech_buffer = \<lparr>items = [], maxlen = r * 10\<rparr>,
      last_speech_time = None, speech_detected = False,
      vad_buffer = \<lparr>items = [], maxlen = r div 10\<rparr>,
      sample_width = 2, channels = 1\<rparr>"

text \<open>What \<open>start()\<close> leaves in the state when the audio device opens.\<close>

definition WakeWordVADModule_start :: "WakeWordVADModule \<Rightarrow> WakeWordVADModule" where
  "WakeWordVADModule_start m = m\<lparr>running := True\<rparr>"

subsection \<open>\_process\_audio\_chunk\_for\_vad\<close>

text \<open>
  The three measures of the analysis window.  The source computes them in floating point;
  here they are the real numbers that the floating-point values approximate.  For the
  zero-crossing rate the two agree on the comparisons made: the count and the length are
  integers, and a quotient of two integers below \<open>2 ^ 50\<close> lies on the same side of
  \<open>0.1\<close> and of \<open>0.5\<close> as its nearest double does.  For the energy and the spectral
  measure, the verdict of the source can differ from the one here on a window whose measure is
  within rounding error of its threshold.  The general statements about the segmentation take
  the classification of a chunk as given and do not depend on how it is computed; the
  concrete runs use windows far from the thresholds.
\<close>

definition normalized :: "int16 list \<Rightarrow> real list" where
  "normalized pcm = map (\<lambda>s. real_of_int (sint s) / 32768) pcm"

definition rms_energy :: "int16 list \<Rightarrow> real" where
  "rms_energy pcm = sqrt (sum_list (map (\<lambda>x. x ^ 2) (normalized pcm)) / real (length pcm))"

text \<open>
  \<open>np.sum((pcm[1:] >= 0) != (pcm[:-1] < 0))\<close>: the pairs are each sample with the one
  before it.
\<close>

definition zero_crossings :: "int16 list \<Rightarrow> nat" where
  "zero_crossings pcm =
     length (filter (\<lambda>(cur, prev). (0 \<le> sint cur) \<noteq> (sint prev < 0)) (zip (tl pcm) (butlast pcm)))"

definition zcr :: "int16 list \<Rightarrow> real" where
  "zcr pcm = (if length pcm > 1 then real (zero_crossings pcm) / real (length pcm - 1) else 0)"

fun magnitudes :: "int16 list \<Rightarrow> real list" where
  "magnitudes (re # im # pcm) =
     sqrt ((real_of_int (sint re) / 32768) * (real_of_int (sint re) / 32768)
           + (real_of_int (sint im) / 32768) * (real_of_int (sint im) / 32768))
     # magnitudes pcm"
| "magnitudes pcm = []"

definition spectral_centroid :: "int16 list \<Rightarrow> real" where
  "spectral_centroid pcm =
     (if length pcm > 1 then
        (let mags = magnitudes pcm; sum_mag = sum_list mags
         in if length mags > 0 \<and> sum_mag > 0
            then sum_list (map (\<lambda>(i, mag). (real i * mag) / sum_mag) (enumerate 0 mags))
            else 0)
      else 0)"

definition energy_ok :: "real \<Rightarrow> int16 list \<Rightarrow> bool" where
  "energy_ok threshold pcm = (rms_energy pcm > threshold)"

definition zcr_ok :: "int16 list \<Rightarrow> bool" where
  "zcr_ok pcm = (0.1 < zcr pcm \<and> zcr pcm < 0.5)"

definition spectral_ok :: "int16 list \<Rightarrow> bool" where
  "spectral_ok pcm = (spectral_centroid pcm > 0.1)"

definition criteria_met :: "real \<Rightarrow> int16 list \<Rightarrow> nat" where
  "criteria_met threshold pcm =
     length (filter id [energy_ok threshold pcm, zcr_ok pcm, spectral_ok pcm])"

definition process_audio_chunk_for_vad :: "WakeWordVADModule \<Rightarrow> byte list \<Rightarrow> bool" where
  "process_audio_chunk_for_vad m audio_data =
     (case frombuffer audio_data of
        Inl e \<Rightarrow> False
      | Inr pcm \<Rightarrow>
          if length pcm = 0 then False else criteria_met (vad_threshold m) pcm \<ge> 2)"

subsection \<open>The segmentation state machine\<close>

definition handle_speech_start :: "WakeWordVADModule \<Rightarrow> WakeWordVADModule" where
  "handle_speech_start m =
     (if \<not> speech_detected m
      then m\<lparr>speech_detected := True, event_bus := emit (event_bus m) ''speech_start'' (PDict [])\<rparr>
      else m)"

definition audio_ready_payload :: "WakeWordVADModule \<Rightarrow> byte list \<Rightarrow> pyval" where
  "audio_ready_payload m audio_bytes =
     PDict [(''audio_data'', PBytes audio_bytes),
            (''sample_rate'', PInt (int (rate m))),
            (''sample_width'', PInt (int (sample_width m))),
            (''channels'', PInt (int (channels m)))]"

definition handle_speech_end :: "WakeWordVADModule \<Rightarrow> WakeWordVADModule" where
  "handle_speech_end m =
     (if length (items (speech_buffer m)) > 0 then
        (let audio_bytes = tobytes (items (speech_buffer m))
         in m\<lparr>event_bus := emit (event_bus m) ''audio_ready_for_stt'' (audio_ready_payload m audio_bytes),
              speech_buffer := deque_clear (speech_buffer m),
              speech_detected := False,
              last_speech_time := None\<rparr>)
      else m)"

text \<open>
  \<open>is_speech\<close> is the classification of the chunk: the verdict of the detector on the
  analysis window once the chunk's samples are in it.
\<close>

definition is_speech :: "WakeWordVADModule \<Rightarrow> int16 list \<Rightarrow> bool" where
  "is_speech m pcm =
     (let vad_samples = items (deque_extend (vad_buffer m) pcm)
      in if length vad_samples > 0 then process_audio_chunk_for_vad m (tobytes vad_samples)
         else False)"

text \<open>
  \<open>process_audio_chunk\<close>, with the clock reading \<open>current_time\<close> as an argument.  The
  only statement that can raise is the first \<open>np.frombuffer\<close>, before any change of the
  state.  The test \<open>self.speech_detected and self.last_speech_time\<close> is Python truthiness:
  a last speech time of \<open>0.0\<close> counts as absent.
\<close>

definition process_audio_chunk ::
  "real \<Rightarrow> byte list \<Rightarrow> WakeWordVADModule \<Rightarrow> exc + WakeWordVADModule" where
  "process_audio_chunk current_time chunk m =
     (case frombuffer chunk of
        Inl e \<Rightarrow> Inl e
      | Inr pcm \<Rightarrow>
          (let m1 = m\<lparr>speech_buffer := deque_extend (speech_buffer m) pcm,
                      vad_buffer := deque_extend (vad_buffer m) pcm\<rparr>
           in if is_speech m pcm
              then Inr ((handle_speech_start m1)\<lparr>last_speech_time := Some current_time\<rparr>)
              else (case last_speech_time m1 of
                      None \<Rightarrow> Inr m1
                    | Some last_time \<Rightarrow>
                        if speech_detected m1 \<and> last_time \<noteq> 0
                           \<and> current_time - last_time \<ge> silence_timeout_ms m1
                        then Inr (handle_speech_end m1)
                        else Inr m1)))"

text \<open>
  \<open>loop\<close>, over the chunks that \<open>stream.read\<close> returns, each with the clock reading of
  its processing; \<open>loop_body\<close> is the \<open>try\<close> statement inside.  An exception of
  \<open>process_audio_chunk\<close> is caught and printed, and the loop goes on with the next chunk.
\<close>

definition loop_body :: "real \<Rightarrow> byte list \<Rightarrow> WakeWordVADModule \<Rightarrow> WakeWordVADModule" where
  "loop_body current_time chunk m =
     (case process_audio_chunk current_time chunk m of
        Inl e \<Rightarrow> m
      | Inr m1 \<Rightarrow> m1)"

fun loop :: "(real \<times> byte list) list \<Rightarrow> WakeWordVADModule \<Rightarrow> WakeWordVADModule" where
  "loop [] m = m"
| "loop ((current_time, chunk) # reads) m =
     (if running m then loop reads (loop_body current_time chunk m) else m)"

subsection \<open>Auxiliary definitions for the statements\<close>

text \<open>
  \<open>samples_of chunk\<close> are the samples of a chunk that decodes (none for a chunk that
  \<open>loop\<close> drops), \<open>chunk_is_speech m chunk\<close> is the classification of \<open>chunk\<close> when it
  is processed in state \<open>m\<close>, and \<open>all_silent reads m\<close> says that every chunk of
  \<open>reads\<close>, processed in order from \<open>m\<close>, is classified silent.  \<open>fresh_module\<close> is the
  module after \<open>__init__\<close> and \<open>start()\<close>: the initial state, which is \<open>SILENT\<close>.
\<close>

definition samples_of :: "byte list \<Rightarrow> int16 list" where
  "samples_of chunk = (case frombuffer chunk of Inl e \<Rightarrow> [] | Inr pcm \<Rightarrow> pcm)"

definition chunk_is_speech :: "WakeWordVADModule \<Rightarrow> byte list \<Rightarrow> bool" where
  "chunk_is_speech m chunk = (case frombuffer chunk of Inl e \<Rightarrow> False | Inr pcm \<Rightarrow> is_speech m pcm)"

fun all_silent :: "(real \<times> byte list) list \<Rightarrow> WakeWordVADModule \<Rightarrow> bool" where
  "all_silent [] m = True"
| "all_silent ((current_time, chunk) # reads) m =
     (\<not> chunk_is_speech m chunk \<and> all_silent reads (loop_body current_time chunk m))"

definition fresh_module :: "event_bus \<Rightarrow> nat \<Rightarrow> real \<Rightarrow> real \<Rightarrow> WakeWordVADModule" where
  "fresh_module bus r threshold timeout_ms =
     WakeWordVADModule_start (WakeWordVADModule_init bus r threshold timeout_ms)"

text \<open>
  \<open>since_clear reads m acc\<close> are the samples fed to the utterance buffer since it was last
  cleared: \<open>acc\<close>, followed by the samples of the chunks of \<open>reads\<close>, starting again from
  nothing at each chunk that ends an utterance.
\<close>

fun since_clear ::
  "(real \<times> byte list) list \<Rightarrow> WakeWordVADModule \<Rightarrow> int16 list \<Rightarrow> int16 list" where
  "since_clear [] m acc = acc"
| "since_clear ((current_time, chunk) # reads) m acc =
     since_clear reads (loop_body current_time chunk m)
       (if speech_detected m \<and> \<not> speech_detected (loop_body current_time chunk m) then []
        else acc @ samples_of chunk)"

text \<open>
  What holds in every state the module reaches from its initial state: the two deques respect
  their bounds; while speaking, the last speech time is set and the utterance buffer is not
  empty; and while the utterance buffer is empty, the analysis window is classified silent.
  \<open>extended m chunk\<close> is \<open>m\<close> with the samples of \<open>chunk\<close> added to both buffers.
\<close>

definition segmentation_inv :: "WakeWordVADModule \<Rightarrow> bool" where
  "segmentation_inv m =
     (length (items (speech_buffer m)) \<le> maxlen (speech_buffer m)
      \<and> length (items (vad_buffer m)) \<le> maxlen (vad_buffer m)
      \<and> maxlen (vad_buffer m) \<le> maxlen (speech_buffer m)
      \<and> (speech_detected m \<longrightarrow>
            (\<exists>t. last_speech_time m = Some t \<and> t \<noteq> 0) \<and> items (speech_buffer m) \<noteq> [])
      \<and> (items (speech_buffer m) = [] \<longrightarrow> \<not> is_speech m []))"

definition extended :: "WakeWordVADModule \<Rightarrow> byte list \<Rightarrow> WakeWordVADModule" where
  "extended m chunk =
     m\<lparr>speech_buffer := deque_extend (speech_buffer m) (samples_of chunk),
       vad_buffer := deque_extend (vad_buffer m) (samples_of chunk)\<rparr>"

text \<open>
  Following the words of the specification, not the code: the fraction of adjacent samples
  between which the sign changes, a sample of value zero counting as non-negative.
\<close>

definition sign_changes :: "int16 list \<Rightarrow> nat" where
  "sign_changes pcm =
     length (filter (\<lambda>(cur, prev). (0 \<le> sint cur) \<noteq> (0 \<le> sint prev)) (zip (tl pcm) (butlast pcm)))"

definition sign_change_fraction :: "int16 list \<Rightarrow> real" where
  "sign_change_fraction pcm = real (sign_changes pcm) / real (length pcm - 1)"

text \<open>
  A concrete run, at sample rate 40 (an analysis window of 4 samples and an utterance buffer
  of 400), threshold 0.01 and silence timeout 1000 ms: a chunk of four samples of silence, a
  chunk of four loud samples, and the states the module goes through when it is fed the first,
  then the second, then the first again.
\<close>

definition example_module :: WakeWordVADModule where
  "example_module = fresh_module EventBus_init 40 (1 / 100) 1000"

definition silence_chunk :: "byte list" where
  "silence_chunk = [0, 0, 0, 0, 0, 0, 0, 0]"

definition speech_chunk :: "byte list" where
  "speech_chunk = [0, 64, 0, 192, 0, 64, 0, 64]"

definition example_after_silence :: WakeWordVADModule where
  "example_after_silence =
     example_module\<lparr>speech_buffer := \<lparr>items = [0, 0, 0, 0], maxlen = 400\<rparr>,
                    vad_buffer := \<lparr>items = [0, 0, 0, 0], maxlen = 4\<rparr>\<rparr>"

definition example_speaking :: WakeWordVADModule where
  "example_speaking =
     example_module\<lparr>event_bus := emit EventBus_init ''speech_start'' (PDict []),
                    speech_buffer := \<lparr>items = [0, 0, 0, 0, 16384, - 16384, 16384, 16384], maxlen = 400\<rparr>,
                    vad_buffer := \<lparr>items = [16384, - 16384, 16384, 16384], maxlen = 4\<rparr>,
                    speech_detected := True,
                    last_speech_time := Some 2000\<rparr>"

definition example_ended :: WakeWordVADModule where
  "example_ended =
     example_module\<lparr>event_bus := emit (emit EventBus_init ''speech_start'' (PDict []))
                       ''audio_ready_for_stt''
                       (PDict [(''audio_data'', PBytes (silence_chunk @ speech_chunk @ silence_chunk)),
                               (''sample_rate'', PInt 40), (''sample_width'', PInt 2),
                               (''channels'', PInt 1)]),
                    speech_buffer := \<lparr>items = [], maxlen = 400\<rparr>,
                    vad_buffer := \<lparr>items = [0, 0, 0, 0], maxlen = 4\<rparr>,
                    speech_detected := False,
                    last_speech_time := None\<rparr>"

section \<open>core/agent\_core.py\<close>

text \<open>
  A module is known to the supervisor by what its \<open>start()\<close> does: it completes, or it
  raises.  Each module instance is started at most once by \<open>AgentCore.start\<close>.
\<close>

record module =
  mod_name :: string
  start_raises :: "exc option"

datatype task = LoopTask module | EventHandlerTask

text \<open>
  The backend gateway is outside the core: \<open>backend.chat\<close> is a parameter of the model.
  It is given the number of calls made before this one and the arguments of the call, and
  either returns a value or raises.
\<close>

record chat_request =
  message :: pyval
  req_sender_name :: string
  req_agent_name :: string
  req_chat_history :: "(string \<times> pyval) list"

datatype chat_outcome = Returns pyval | Raises exc

type_synonym gateway = "nat \<Rightarrow> chat_request \<Rightarrow> chat_outcome"

text \<open>The lines the supervisor prints.\<close>

datatype log_line =
    StartingAgentCore
  | ChatSending pyval
  | ChatErrorResponse pyval
  | ChatAgentResponse pyval
  | ChatUnexpectedFormat pyval
  | ChatPaymentProcessed pyval
  | ChatErrorTimedOut string
  | ChatErrorPayment string
  | ChatErrorFailed string
  | EventWakeWord pyval
  | EventSpeechStarted pyval
  | EventAudioReady
  | EventAudioSize nat
  | EventAudioDuration
  | EventAudioSampleRate pyval
  | EventAudioSampleWidth pyval
  | EventAudioChannels pyval
  | EventTranscription pyval pyval pyval
  | EventHandlerError string

text \<open>
  The state of an \<open>AgentCore\<close>.  A turn of the chat history, the dict
  \<open>{"role": r, "content": c}\<close>, is the pair \<open>(r, c)\<close>.  The last three fields are not
  attributes of the object: they record, in order, the calls of \<open>module.start()\<close>, the
  calls of \<open>backend.chat\<close> and the printed lines.
\<close>

record agent_core =
  core_event_bus :: event_bus
  modules :: "module list"
  tasks :: "task list"
  agent_name :: string
  sender_name :: string
  chat_history :: "(string \<times> pyval) list"
  start_calls :: "module list"
  chat_calls :: "chat_request list"
  log :: "log_line list"

definition AgentCore_init :: "module list \<Rightarrow> string option \<Rightarrow> string \<Rightarrow> agent_core" where
  "AgentCore_init ms agent sender =
     \<lparr>core_event_bus = EventBus_init, modules = ms, tasks = [],
      agent_name = (case agent of
                      None \<Rightarrow> ''0xdacd02dd0ce8a923ad26d4c49bb94ece09306c3e''
                    | Some a \<Rightarrow> if a \<noteq> [] then a
                               else ''0xdacd02dd0ce8a923ad26d4c49bb94ece09306c3e''),
      sender_name = sender, chat_history = [],
      start_calls = [], chat_calls = [], log = []\<rparr>"

definition print :: "log_line \<Rightarrow> agent_core \<Rightarrow> agent_core" where
  "print l c = c\<lparr>log := log c @ [l]\<rparr>"

subsection \<open>start\<close>

text \<open>
  The \<open>for\<close> loop of \<open>start\<close>.  Nothing catches an exception of \<open>module.start()\<close>: it
  leaves the loop and \<open>start\<close>, and is returned here with the state reached.
\<close>

fun start_modules :: "module list \<Rightarrow> agent_core \<Rightarrow> exc option \<times> agent_core" where
  "start_modules [] c = (None, c)"
| "start_modules (m # ms) c =
     (let c1 = c\<lparr>start_calls := start_calls c @ [m]\<rparr>
      in case start_raises m of
           Some e \<Rightarrow> (Some e, c1)
         | None \<Rightarrow> start_modules ms (c1\<lparr>tasks := tasks c1 @ [LoopTask m]\<rparr>))"

definition start :: "agent_core \<Rightarrow> exc option \<times> agent_core" where
  "start c =
     (case start_modules (modules c) (print StartingAgentCore c) of
        (Some e, c1) \<Rightarrow> (Some e, c1)
      | (None, c1) \<Rightarrow> (None, c1\<lparr>tasks := tasks c1 @ [EventHandlerTask]\<rparr>))"

subsection \<open>\_handle\_transcription\<close>

text \<open>
  The single \<open>try\<close> statement of \<open>_handle_transcription\<close> is written in parts:
  \<open>chat_try\<close> is its body, with \<open>handle_chat_result\<close> and \<open>handle_chat_response\<close> the
  handling of the returned value, and \<open>chat_except\<close> is its \<open>except Exception\<close> handler.
  Each part returns the exception it raises, if any, with the state reached, since the
  mutations made before a \<open>raise\<close> persist.
\<close>

definition chat_error_line :: "string \<Rightarrow> log_line" where
  "chat_error_line error_msg =
     (if sublist ''ReadTimeout'' error_msg \<or> sublist ''timeout'' (lower error_msg)
        then ChatErrorTimedOut error_msg
      else if sublist ''PaymentError'' error_msg then ChatErrorPayment error_msg
      else ChatErrorFailed error_msg)"

definition handle_chat_response :: "pyval \<Rightarrow> agent_core \<Rightarrow> exc option \<times> agent_core" where
  "handle_chat_response chat_response c =
     (case py_contains ''error'' chat_response of
        Inl e \<Rightarrow> (Some e, c)
      | Inr True \<Rightarrow>
          (case py_getitem chat_response ''error'' of
             Inl e \<Rightarrow> (Some e, c)
           | Inr err \<Rightarrow> (None, print (ChatErrorResponse err) c))
      | Inr False \<Rightarrow>
          (case py_contains ''response'' chat_response of
             Inl e \<Rightarrow> (Some e, c)
           | Inr True \<Rightarrow>
               (case py_getitem chat_response ''response'' of
                  Inl e \<Rightarrow> (Some e, c)
                | Inr agent_response \<Rightarrow>
                    (let c1 = print (ChatAgentResponse agent_response) c;
                         c2 = c1\<lparr>chat_history := chat_history c1 @ [(''assistant'', agent_response)]\<rparr>
                     in (None, c2\<lparr>core_event_bus :=
                           emit (core_event_bus c2) ''agent_response''
                             (PDict [(''text'', agent_response)])\<rparr>)))
           | Inr False \<Rightarrow> (None, print (ChatUnexpectedFormat chat_response) c)))"

definition handle_chat_result :: "pyval \<Rightarrow> agent_core \<Rightarrow> exc option \<times> agent_core" where
  "handle_chat_result result c =
     (case dict_get result ''response'' PNone of
        Inl e \<Rightarrow> (Some e, c)
      | Inr r \<Rightarrow>
          (case (if truthy r then handle_chat_response r c else (None, c)) of
             (Some e, c1) \<Rightarrow> (Some e, c1)
           | (None, c1) \<Rightarrow>
               (case dict_get result ''paymentResponse'' PNone of
                  Inl e \<Rightarrow> (Some e, c1)
                | Inr payment \<Rightarrow>
                    (None, if truthy payment then print (ChatPaymentProcessed payment) c1 else c1))))"

definition chat_except :: "exc \<Rightarrow> agent_core \<Rightarrow> exc option \<times> agent_core" where
  "chat_except e c =
     (case e of
        PyException error_msg \<Rightarrow> (None, print (chat_error_line error_msg) c)
      | CancelledError \<Rightarrow> (Some CancelledError, c))"

definition chat_try :: "gateway \<Rightarrow> pyval \<Rightarrow> agent_core \<Rightarrow> exc option \<times> agent_core" where
  "chat_try backend_chat text c =
     (let c1 = print (ChatSending text) c;
          request = \<lparr>message = text, req_sender_name = sender_name c1,
                     req_agent_name = agent_name c1, req_chat_history = chat_history c1\<rparr>;
          c2 = c1\<lparr>chat_calls := chat_calls c1 @ [request]\<rparr>
      in case backend_chat (length (chat_calls c1)) request of
           Raises e \<Rightarrow> (Some e, c2)
         | Returns result \<Rightarrow>
             handle_chat_result result
               (c2\<lparr>chat_history := chat_history c2 @ [(''user'', text)]\<rparr>))"

definition handle_transcription :: "gateway \<Rightarrow> pyval \<Rightarrow> agent_core \<Rightarrow> exc option \<times> agent_core" where
  "handle_transcription backend_chat text c =
     (if \<not> truthy text then (None, c)
      else case py_strip text of
             Inl e \<Rightarrow> (Some e, c)
           | Inr stripped \<Rightarrow>
               if \<not> truthy stripped then (None, c)
               else (case chat_try backend_chat text c of
                       (Some e, c1) \<Rightarrow> chat_except e c1
                     | (None, c1) \<Rightarrow> (None, c1)))"

subsection \<open>\_event\_handler\_loop\<close>

text \<open>
  Some operations of the loop raise or not according to limits of the interpreter that this
  model does not fix: \<open>str()\<close> of an \<open>int\<close> beyond the digit limit of the interpreter
  raises \<open>ValueError\<close> (also inside a list or a dict, whose \<open>repr\<close> can moreover exceed the
  recursion limit), and the floating-point product and quotient of the audio duration can
  raise \<open>OverflowError\<close> (an \<open>int\<close> too large for a \<open>float\<close>) or \<open>ZeroDivisionError\<close>
  (a product that underflows to \<open>0.0\<close>).  These are parameters of the model: an
  \<open>interpreter\<close> gives, for such an operation, the message of the exception it raises, if
  any.  All of them are instances of \<open>Exception\<close>.  What does not depend on the interpreter
  is decided here: \<open>str()\<close> of \<open>None\<close>, a \<open>bool\<close>, a \<open>float\<close>, a \<open>str\<close> or
  \<open>bytes\<close> never raises, and arithmetic on \<open>int\<close> and \<open>bool\<close> alone is exact.
  \<open>print\<close> itself is taken to succeed once its argument is built.
\<close>

record interpreter =
  str_error :: "pyval \<Rightarrow> string option"
  duration_error :: "nat \<Rightarrow> pyval \<Rightarrow> pyval \<Rightarrow> pyval \<Rightarrow> string option"

definition py_str_error :: "interpreter \<Rightarrow> pyval \<Rightarrow> string option" where
  "py_str_error interp v =
     (case v of
        PInt i \<Rightarrow> str_error interp v
      | PList xs \<Rightarrow> str_error interp v
      | PDict kvs \<Rightarrow> str_error interp v
      | _ \<Rightarrow> None)"

text \<open>
  \<open>format(v, ".2f")\<close>: a \<open>bool\<close> or a \<open>float\<close> is formatted; an \<open>int\<close> is converted
  to a \<open>float\<close> first, which raises \<open>OverflowError\<close> from \<open>2 ^ 1024 - 2 ^ 970\<close> on (the
  first integer that rounds to \<open>2 ^ 1024\<close>); anything else raises \<open>TypeError\<close> or
  \<open>ValueError\<close>.
\<close>

fun format_2f_error :: "pyval \<Rightarrow> string option" where
  "format_2f_error (PBool b) = None"
| "format_2f_error (PFloat r) = None"
| "format_2f_error (PInt i) =
     (if \<bar>i\<bar> < 2 ^ 1024 - 2 ^ 970 then None
      else Some ''OverflowError: int too large to convert to float'')"
| "format_2f_error (PStr s) = Some ''ValueError: Unknown format code f for object of type str''"
| "format_2f_error v = Some ''TypeError: unsupported format string''"

fun integral :: "pyval \<Rightarrow> bool" where
  "integral (PBool b) = True"
| "integral (PInt i) = True"
| "integral v = False"

text \<open>The first exception raised by a sequence of operations evaluated in order.\<close>

fun first_error :: "string option list \<Rightarrow> string option" where
  "first_error [] = None"
| "first_error (None # rest) = first_error rest"
| "first_error (Some msg # rest) = Some msg"

text \<open>
  The expression \<open>audio_size_bytes / (sample_rate * sample_width * channels)\<close>, evaluated
  when the three values are truthy.  When one of them is not a number it always raises:
  \<open>TypeError\<close>, unless the interpreter raises before (the repetition of a sequence by a
  large \<open>int\<close> raises \<open>OverflowError\<close> or \<open>MemoryError\<close>).  When all are
  \<open>int\<close> or \<open>bool\<close> it is exact, with a divisor that is not zero, and does not raise.
  When a \<open>float\<close> is among them, it is up to the interpreter's floating point.
\<close>

definition audio_duration_error ::
  "interpreter \<Rightarrow> nat \<Rightarrow> pyval \<Rightarrow> pyval \<Rightarrow> pyval \<Rightarrow> string option" where
  "audio_duration_error interp audio_size_bytes sample_rate' sample_width' channels' =
     (if truthy sample_rate' \<and> truthy sample_width' \<and> truthy channels' then
        (if \<not> (numeric sample_rate' \<and> numeric sample_width' \<and> numeric channels')
           then (case duration_error interp audio_size_bytes sample_rate' sample_width' channels' of
                   None \<Rightarrow> Some ''TypeError: unsupported operand type(s)''
                 | Some msg \<Rightarrow> Some msg)
         else if integral sample_rate' \<and> integral sample_width' \<and> integral channels'
           then None
         else duration_error interp audio_size_bytes sample_rate' sample_width' channels')
      else None)"

text \<open>
  The body of the \<open>try\<close> statement inside \<open>while True\<close>, for the event that
  \<open>listen()\<close> returned.  The key \<open>"payload"\<close> is always present in an event of the bus,
  so the default of \<open>event.get("payload", {})\<close> is never used.  Each \<open>print\<close> of an
  f-string first builds the string, which raises when \<open>str()\<close> or the format of one of its
  values does; the lines printed before an exception stay printed.
\<close>

definition print_value ::
  "interpreter \<Rightarrow> (pyval \<Rightarrow> log_line) \<Rightarrow> pyval \<Rightarrow> agent_core \<Rightarrow> exc option \<times> agent_core" where
  "print_value interp line v c =
     (case py_str_error interp v of
        Some msg \<Rightarrow> (Some (PyException msg), c)
      | None \<Rightarrow> (None, print (line v) c))"

definition audio_ready_event ::
  "interpreter \<Rightarrow> pyval \<Rightarrow> agent_core \<Rightarrow> exc option \<times> agent_core" where
  "audio_ready_event interp payload c =
     (case (dict_get payload ''audio_data'' PNone, dict_get payload ''sample_rate'' PNone,
            dict_get payload ''sample_width'' PNone, dict_get payload ''channels'' PNone) of
        (Inr audio_data, Inr sample_rate', Inr sample_width', Inr channels') \<Rightarrow>
          (case (if truthy audio_data then py_len audio_data else Inr 0) of
             Inl e \<Rightarrow> (Some e, c)
           | Inr audio_size_bytes \<Rightarrow>
               (case audio_duration_error interp audio_size_bytes
                       sample_rate' sample_width' channels' of
                  Some msg \<Rightarrow> (Some (PyException msg), c)
                | None \<Rightarrow>
                    (let c1 = print EventAudioDuration
                                (print (EventAudioSize audio_size_bytes)
                                   (print EventAudioReady c))
                     in case print_value interp EventAudioSampleRate sample_rate' c1 of
                          (Some e, c2) \<Rightarrow> (Some e, c2)
                        | (None, c2) \<Rightarrow>
                            (case print_value interp EventAudioSampleWidth sample_width' c2 of
                               (Some e, c3) \<Rightarrow> (Some e, c3)
                             | (None, c3) \<Rightarrow>
                                 print_value interp EventAudioChannels channels' c3))))
      | _ \<Rightarrow> (Some (PyException ''AttributeError: object has no attribute get''), c))"

definition transcription_event ::
  "interpreter \<Rightarrow> gateway \<Rightarrow> pyval \<Rightarrow> agent_core \<Rightarrow> exc option \<times> agent_core" where
  "transcription_event interp backend_chat payload c =
     (case (dict_get payload ''text'' PNone, dict_get payload ''audio_duration'' (PInt 0),
            dict_get payload ''provider'' (PStr ''unknown'')) of
        (Inr text, Inr duration, Inr provider) \<Rightarrow>
          (case first_error [py_str_error interp text, format_2f_error duration,
                             py_str_error interp provider] of
             Some msg \<Rightarrow> (Some (PyException msg), c)
           | None \<Rightarrow>
               handle_transcription backend_chat text
                 (print (EventTranscription text duration provider) c))
      | _ \<Rightarrow> (Some (PyException ''AttributeError: object has no attribute get''), c))"

definition process_event ::
  "interpreter \<Rightarrow> gateway \<Rightarrow> event \<Rightarrow> agent_core \<Rightarrow> exc option \<times> agent_core" where
  "process_event interp backend_chat ev c =
     (let event_type = ev_type ev; payload = ev_payload ev
      in if event_type = ''wake_word_detected'' then print_value interp EventWakeWord payload c
         else if event_type = ''speech_start'' then print_value interp EventSpeechStarted payload c
         else if event_type = ''audio_ready_for_stt'' then audio_ready_event interp payload c
         else if event_type = ''transcription''
           then transcription_event interp backend_chat payload c
         else (None, c))"

text \<open>
  One iteration of \<open>while True\<close>, after \<open>listen()\<close> returned the event: the body and
  the two \<open>except\<close> clauses.  \<open>asyncio.sleep(0.1)\<close> changes nothing in the state.
  The cancellation of the task is modelled where it reaches the body of the loop, at the call
  of the gateway; a cancellation that arrives while the loop is suspended in \<open>listen()\<close>
  or in \<open>asyncio.sleep\<close> ends the task as well and is outside this model.
\<close>

datatype loop_control = Continue | Break

definition loop_iteration ::
  "interpreter \<Rightarrow> gateway \<Rightarrow> event \<Rightarrow> agent_core \<Rightarrow> loop_control \<times> agent_core" where
  "loop_iteration interp backend_chat ev c =
     (case process_event interp backend_chat ev c of
        (None, c1) \<Rightarrow> (Continue, c1)
      | (Some CancelledError, c1) \<Rightarrow> (Break, c1)
      | (Some (PyException e), c1) \<Rightarrow> (Continue, print (EventHandlerError e) c1))"

text \<open>
  The loop takes its events from the default queue.  It is run until it is suspended in
  \<open>listen()\<close> on an empty default queue, or until it leaves by \<open>break\<close>.  An
  iteration removes one event and adds at most one, an \<open>agent_response\<close>, and only when
  it removed a \<open>transcription\<close>; this is why the loop terminates on every queue.
\<close>

datatype loop_state = Suspended | Exited

definition pending :: "agent_core \<Rightarrow> nat" where
  "pending c =
     (let q = default_queue (core_event_bus c)
      in length q + length (filter (\<lambda>e. ev_type e = ''transcription'') q))"

lemma default_queue_print [simp]:
  "core_event_bus (print l c) = core_event_bus c"
  by (simp add: print_def)

definition queue_grows :: "event_bus \<Rightarrow> event_bus \<Rightarrow> bool" where
  "queue_grows b b' =
     (default_queue b' = default_queue b
      \<or> (\<exists>p. default_queue b' = default_queue b @ [\<lparr>ev_type = ''agent_response'', ev_payload = p\<rparr>]))"

lemma handle_chat_response_grows:
  "queue_grows (core_event_bus c) (core_event_bus (snd (handle_chat_response r c)))"
  by (auto simp: handle_chat_response_def queue_grows_def emit_def Let_def
      split: sum.splits bool.splits)

lemma handle_chat_result_grows:
  "queue_grows (core_event_bus c) (core_event_bus (snd (handle_chat_result result c)))"
proof (cases "dict_get result ''response'' PNone")
  case (Inl e)
  then show ?thesis by (simp add: handle_chat_result_def queue_grows_def)
next
  case (Inr r)
  show ?thesis
  proof (cases "truthy r")
    case True
    then show ?thesis
      using Inr handle_chat_response_grows [of c r]
      by (auto simp: handle_chat_result_def split: sum.splits option.splits prod.splits)
  next
    case False
    then show ?thesis
      using Inr by (auto simp: handle_chat_result_def queue_grows_def split: sum.splits)
  qed
qed

lemma chat_except_bus: "core_event_bus (snd (chat_except e c)) = core_event_bus c"
  by (simp add: chat_except_def split: exc.splits)

lemma chat_try_grows:
  "queue_grows (core_event_bus c) (core_event_bus (snd (chat_try gw text c)))"
proof -
  define c2 where "c2 = (print (ChatSending text) c)\<lparr>chat_calls := chat_calls c @ [\<lparr>message = text, req_sender_name = sender_name c,
                     req_agent_name = agent_name c, req_chat_history = chat_history c\<rparr>]\<rparr>"
  have b: "core_event_bus c2 = core_event_bus c" by (simp add: c2_def)
  show ?thesis
  proof (cases "gw (length (chat_calls c)) \<lparr>message = text, req_sender_name = sender_name c,
                     req_agent_name = agent_name c, req_chat_history = chat_history c\<rparr>")
    case (Returns result)
    have "chat_try gw text c = handle_chat_result result (c2\<lparr>chat_history := chat_history c2 @ [(''user'', text)]\<rparr>)"
      using Returns by (simp add: chat_try_def Let_def c2_def print_def)
    then show ?thesis
      using handle_chat_result_grows [of "c2\<lparr>chat_history := chat_history c2 @ [(''user'', text)]\<rparr>" result] b
      by simp
  next
    case (Raises e)
    then have "chat_try gw text c = (Some e, c2)"
      by (simp add: chat_try_def Let_def c2_def print_def)
    then show ?thesis using b by (simp add: queue_grows_def)
  qed
qed

lemma handle_transcription_grows:
  "queue_grows (core_event_bus c) (core_event_bus (snd (handle_transcription gw text c)))"
  using chat_try_grows [of c gw "text"]
  by (auto simp: handle_transcription_def queue_grows_def chat_except_bus
      split: sum.splits prod.splits option.splits)

lemma transcription_event_grows:
  "queue_grows (core_event_bus c) (core_event_bus (snd (transcription_event interp gw payload c)))"
  using handle_transcription_grows [of "print l c" gw t for l t]
  by (auto simp: transcription_event_def queue_grows_def split: sum.splits prod.splits option.splits)

lemma print_value_bus:
  "core_event_bus (snd (print_value interp line v c)) = core_event_bus c"
  by (simp add: print_value_def split: option.splits)

lemma audio_ready_event_bus:
  "core_event_bus (snd (audio_ready_event interp payload c)) = core_event_bus c"
proof -
  have three: "core_event_bus (snd (case print_value interp l1 v1 c1 of
                          (Some e, c2) \<Rightarrow> (Some e, c2)
                        | (None, c2) \<Rightarrow>
                            (case print_value interp l2 v2 c2 of
                               (Some e, c3) \<Rightarrow> (Some e, c3)
                             | (None, c3) \<Rightarrow> print_value interp l3 v3 c3))) = core_event_bus c1"
    for l1 l2 l3 v1 v2 v3 c1
    by (simp add: print_value_def split: option.splits)
  show ?thesis
    by (simp add: audio_ready_event_def Let_def three split: sum.splits option.splits)
qed

lemma process_event_queue:
  "default_queue (core_event_bus (snd (process_event interp gw ev c))) = default_queue (core_event_bus c)
   \<or> (ev_type ev = ''transcription'' \<and>
       (\<exists>p. default_queue (core_event_bus (snd (process_event interp gw ev c)))
          = default_queue (core_event_bus c) @ [\<lparr>ev_type = ''agent_response'', ev_payload = p\<rparr>]))"
proof (cases "ev_type ev = ''transcription''")
  case True
  with transcription_event_grows [of c interp gw "ev_payload ev"] show ?thesis
    by (simp add: process_event_def Let_def queue_grows_def)
next
  case False
  then show ?thesis
    by (simp add: process_event_def Let_def audio_ready_event_bus print_value_bus)
qed

lemma loop_iteration_bus:
  "core_event_bus (snd (loop_iteration interp gw ev c))
     = core_event_bus (snd (process_event interp gw ev c))"
  by (simp add: loop_iteration_def split: prod.splits option.splits exc.splits)

lemma pending_decreases:
  assumes "default_queue (core_event_bus c) = ev # rest"
  shows "pending (snd (loop_iteration interp gw ev (c\<lparr>core_event_bus := (core_event_bus c)\<lparr>default_queue := rest\<rparr>\<rparr>))) < pending c"
  using assms process_event_queue [of interp gw ev "c\<lparr>core_event_bus := (core_event_bus c)\<lparr>default_queue := rest\<rparr>\<rparr>"]
  by (auto simp: pending_def Let_def loop_iteration_bus)

function event_handler_loop ::
  "interpreter \<Rightarrow> gateway \<Rightarrow> agent_core \<Rightarrow> loop_state \<times> agent_core" where
  "event_handler_loop interp backend_chat c =
     (case queue_get (core_event_bus c) DefaultQueue of
        None \<Rightarrow> (Suspended, c)
      | Some (ev, bus) \<Rightarrow>
          (case loop_iteration interp backend_chat ev (c\<lparr>core_event_bus := bus\<rparr>) of
             (Break, c1) \<Rightarrow> (Exited, c1)
           | (Continue, c1) \<Rightarrow> event_handler_loop interp backend_chat c1))"
  by pat_completeness auto
termination
proof (relation "measure (\<lambda>(interp, backend_chat, c). pending c)")
  show "wf (measure (\<lambda>(interp, backend_chat, c). pending c))" by simp
next
  fix interp :: interpreter and backend_chat :: gateway and c :: agent_core and x2 ev bus x y
  assume a: "queue_get (core_event_bus c) DefaultQueue = Some x2" "(ev, bus) = x2"
    "(x, y) = loop_iteration interp backend_chat ev (c\<lparr>core_event_bus := bus\<rparr>)" "x = Continue"
  from a(1,2) obtain rest where q: "default_queue (core_event_bus c) = ev # rest"
    and b: "bus = (core_event_bus c)\<lparr>default_queue := rest\<rparr>"
    by (auto simp: queue_get_def split: list.splits)
  have "y = snd (loop_iteration interp backend_chat ev (c\<lparr>core_event_bus := bus\<rparr>))"
    using a(3) [symmetric] by simp
  with pending_decreases [OF q, of interp backend_chat] b
  show "((interp, backend_chat, y), interp, backend_chat, c)
          \<in> measure (\<lambda>(interp, backend_chat, c). pending c)"
    by simp
qed

subsection \<open>Auxiliary definitions for the statements\<close>

text \<open>
  \<open>after_listen c\<close> is the state in which \<open>listen()\<close> has returned the head of the
  default queue, and \<open>chat_request_of c text\<close> is the call of \<open>backend.chat\<close> that
  \<open>_handle_transcription\<close> makes in state \<open>c\<close>.  The two gateways and the state with a
  given default queue are the concrete inputs of the examples: a gateway that always raises
  \<open>ReadTimeout\<close>, one that always returns an error response in the format of
  \<open>BackendConnector.chat\<close>, one during whose call the task is cancelled, and an
  interpreter none of whose limits is reached.
\<close>

definition after_listen :: "agent_core \<Rightarrow> agent_core" where
  "after_listen c =
     c\<lparr>core_event_bus := (core_event_bus c)\<lparr>default_queue := tl (default_queue (core_event_bus c))\<rparr>\<rparr>"

definition chat_request_of :: "agent_core \<Rightarrow> pyval \<Rightarrow> chat_request" where
  "chat_request_of c text' =
     \<lparr>message = text', req_sender_name = sender_name c,
      req_agent_name = agent_name c, req_chat_history = chat_history c\<rparr>"

definition timeout_gateway :: gateway where
  "timeout_gateway n request = Raises (PyException ''ReadTimeout'')"

definition error_gateway :: gateway where
  "error_gateway n request =
     Returns (PDict [(''paymentResponse'', PNone),
                     (''response'', PDict [(''error'', PStr ''timeout'')])])"

definition cancelling_gateway :: gateway where
  "cancelling_gateway n request = Raises CancelledError"

definition example_interpreter :: interpreter where
  "example_interpreter =
     \<lparr>str_error = (\<lambda>v. None), duration_error = (\<lambda>audio_size_bytes r w ch. None)\<rparr>"

definition core_with_queue :: "event list \<Rightarrow> agent_core" where
  "core_with_queue q =
     (AgentCore_init [] None ''User'')
       \<lparr>core_event_bus := \<lparr>subscribers = Map.empty, default_queue = q\<rparr>\<rparr>"

section \<open>Properties of the event bus\<close>

lemma queue_contents_emit:
  "queue_contents (emit bus t p) r =
     map_option (\<lambda>q. if r = DefaultQueue \<or> (\<exists>i. r = SubscriberQueue t i)
                      then q @ [\<lparr>ev_type = t, ev_payload = p\<rparr>] else q) (queue_contents bus r)"
  by (cases r) (auto simp: queue_contents_def emit_def Let_def split: option.splits)

lemma queue_contents_emit_all:
  "queue_contents (emit_all bus evs) (SubscriberQueue t i) =
     map_option (\<lambda>q. q @ filter (\<lambda>e. ev_type e = t) (map mk_event evs))
       (queue_contents bus (SubscriberQueue t i))"
proof (induction evs arbitrary: bus)
  case Nil
  show ?case by (simp add: emit_all_def option.map_ident)
next
  case (Cons a evs)
  obtain t' p where a: "a = (t', p)" by (cases a)
  have "emit_all bus (a # evs) = emit_all (emit bus t' p) evs"
    by (simp add: emit_all_def a)
  then show ?case
    using Cons.IH [of "emit bus t' p"]
    by (cases "queue_contents bus (SubscriberQueue t i)")
       (auto simp: queue_contents_emit a mk_event_def)
qed

lemma registered_apply_op: "registered bus r \<Longrightarrow> registered (apply_op bus op) r"
proof (cases op)
  case (Emit t p)
  then show "registered bus r \<Longrightarrow> ?thesis" by (simp add: registered_def queue_contents_emit)
next
  case (Listen t)
  then show "registered bus r \<Longrightarrow> ?thesis"
    by (cases r) (auto simp: registered_def queue_contents_def listen_subscribe_def Let_def
          split: option.splits if_splits)
next
  case (Get r')
  then show "registered bus r \<Longrightarrow> ?thesis"
    by (cases r; cases r') (auto simp: registered_def queue_contents_def queue_get_def
          split: option.splits if_splits list.splits)
qed

lemma registered_apply_ops: "registered bus r \<Longrightarrow> registered (apply_ops bus ops) r"
  unfolding apply_ops_def
  by (induction ops arbitrary: bus) (auto intro: registered_apply_op)

lemma listen_subscribe_new:
  assumes "t \<noteq> []"
  shows "listen_subscribe bus (Some t) =
           (bus\<lparr>subscribers := (subscribers bus)(t \<mapsto> (case subscribers bus t of None \<Rightarrow> [] | Some qs \<Rightarrow> qs) @ [[]])\<rparr>,
            SubscriberQueue t (length (case subscribers bus t of None \<Rightarrow> [] | Some qs \<Rightarrow> qs)))"
  using assms by (simp add: listen_subscribe_def Let_def)

lemma queue_contents_listen_new:
  assumes "t \<noteq> []" "listen_subscribe bus (Some t) = (bus', r)"
  shows "queue_contents bus' r = Some [] \<and> queue_contents bus r = None \<and> (\<exists>i. r = SubscriberQueue t i)
    \<and> (\<forall>r'. r' \<noteq> r \<longrightarrow> queue_contents bus' r' = queue_contents bus r')
    \<and> default_queue bus' = default_queue bus"
  using assms
  apply (simp add: listen_subscribe_new)
  apply (intro conjI allI impI)
  subgoal by (auto simp: queue_contents_def split: option.splits)
  subgoal by (auto simp: queue_contents_def split: option.splits)
  subgoal by auto
  subgoal for r' by (cases r') (auto simp: queue_contents_def nth_append split: option.splits if_splits)
  subgoal by auto
  done

lemma queue_get_head:
  "map_option fst (queue_get bus r) =
     (case queue_contents bus r of None \<Rightarrow> None | Some [] \<Rightarrow> None | Some (e # rest) \<Rightarrow> Some e)"
  by (cases r) (auto simp: queue_get_def queue_contents_def split: option.splits list.splits)

text \<open>
  Claim C5.  A publish of an event of type \<open>t\<close> appends the event to the default queue and
  to every queue subscribed to \<open>t\<close>; when \<open>t\<close> has no subscribers, the subscriber queues
  are left as they are, and the event still reaches the default queue.  The queues of every
  other type are unchanged.
\<close>

theorem emit_delivers:
  "default_queue (emit bus t p) = default_queue bus @ [\<lparr>ev_type = t, ev_payload = p\<rparr>]
   \<and> (\<forall>qs. subscribers bus t = Some qs \<longrightarrow>
         subscribers (emit bus t p) t = Some (map (\<lambda>q. q @ [\<lparr>ev_type = t, ev_payload = p\<rparr>]) qs))
   \<and> (subscribers bus t = None \<longrightarrow> subscribers (emit bus t p) = subscribers bus)
   \<and> (\<forall>t'. t' \<noteq> t \<longrightarrow> subscribers (emit bus t p) t' = subscribers bus t')"
  by (simp add: emit_def Let_def split: option.splits)

theorem emit_delivers_witness:
  "default_queue (emit \<lparr>subscribers = [''speech_start'' \<mapsto> [[], []]], default_queue = []\<rparr>
                   ''speech_start'' (PDict []))
     = [\<lparr>ev_type = ''speech_start'', ev_payload = PDict []\<rparr>]
   \<and> subscribers (emit \<lparr>subscribers = [''speech_start'' \<mapsto> [[], []]], default_queue = []\<rparr>
                    ''speech_start'' (PDict [])) ''speech_start''
     = Some [[\<lparr>ev_type = ''speech_start'', ev_payload = PDict []\<rparr>],
             [\<lparr>ev_type = ''speech_start'', ev_payload = PDict []\<rparr>]]
   \<and> subscribers (emit \<lparr>subscribers = [''speech_start'' \<mapsto> [[], []]], default_queue = []\<rparr>
                    ''speech_start'' (PDict [])) ''transcription'' = None
   \<and> subscribers (emit \<lparr>subscribers = [''speech_start'' \<mapsto> [[], []]], default_queue = []\<rparr>
                    ''unknown'' PNone)
     = [''speech_start'' \<mapsto> [[], []]]
   \<and> default_queue (emit \<lparr>subscribers = [''speech_start'' \<mapsto> [[], []]], default_queue = []\<rparr>
                    ''unknown'' PNone)
     = [\<lparr>ev_type = ''unknown'', ev_payload = PNone\<rparr>]"
  using emit_delivers [of "\<lparr>subscribers = [''speech_start'' \<mapsto> [[], []]], default_queue = []\<rparr>"
                          "''speech_start''" "PDict []"]
        emit_delivers [of "\<lparr>subscribers = [''speech_start'' \<mapsto> [[], []]], default_queue = []\<rparr>"
                          "''unknown''" PNone]
  by simp

text \<open>
  Claim C9, as stated, fails for the event type \<open>""\<close>, which is not \<open>None\<close>:
  \<open>listen("")\<close> registers no queue and returns the head of the default queue, here an
  event of another type that was published before the call.
\<close>

theorem listen_empty_type_counterexample:
  "listen_subscribe (emit EventBus_init ''speech_start'' (PDict [])) (Some [])
     = (emit EventBus_init ''speech_start'' (PDict []), DefaultQueue)
   \<and> map_option fst (queue_get (emit EventBus_init ''speech_start'' (PDict [])) DefaultQueue)
     = Some \<lparr>ev_type = ''speech_start'', ev_payload = PDict []\<rparr>"
  by (simp add: listen_subscribe_def queue_get_def emit_def EventBus_init_def)

text \<open>
  Claim C9, amended: every call of \<open>listen\<close> with a non-empty event type \<open>t\<close> registers a
  queue that was not registered before and is empty; no later operation on the bus removes it;
  after any sequence of publishes that follows the call it holds exactly the events of type
  \<open>t\<close> among them, in order, so that the call returns the first event of type \<open>t\<close>
  published after it (and stays suspended while there is none).  Nothing published before the
  call is ever in that queue.
\<close>

theorem listen_registers_fresh_queue:
  assumes "t \<noteq> []" and "listen_subscribe bus (Some t) = (bus', r)"
  shows "queue_contents bus r = None
         \<and> queue_contents bus' r = Some []
         \<and> (\<forall>ops. registered (apply_ops bus' ops) r)
         \<and> (\<forall>evs. queue_contents (emit_all bus' evs) r
                     = Some (filter (\<lambda>e. ev_type e = t) (map mk_event evs)))
         \<and> (\<forall>evs. map_option fst (queue_get (emit_all bus' evs) r)
                     = (case filter (\<lambda>e. ev_type e = t) (map mk_event evs) of
                          [] \<Rightarrow> None | e # rest \<Rightarrow> Some e))"
proof -
  from queue_contents_listen_new [OF assms]
  have new: "queue_contents bus r = None" "queue_contents bus' r = Some []"
    and ref: "\<exists>i. r = SubscriberQueue t i"
    by simp_all
  from ref obtain i where r: "r = SubscriberQueue t i" ..
  have reg: "registered (apply_ops bus' ops) r" for ops
    by (rule registered_apply_ops) (simp add: registered_def new)
  have cont: "queue_contents (emit_all bus' evs) r
                = Some (filter (\<lambda>e. ev_type e = t) (map mk_event evs))" for evs
    using queue_contents_emit_all [of bus' evs t i] new(2) by (simp add: r)
  have "map_option fst (queue_get (emit_all bus' evs) r)
          = (case filter (\<lambda>e. ev_type e = t) (map mk_event evs) of
               [] \<Rightarrow> None | e # rest \<Rightarrow> Some e)" for evs
    by (simp add: queue_get_head cont split: list.splits)
  with new reg cont show ?thesis by blast
qed

theorem listen_registers_fresh_queue_witness:
  "''transcription'' \<noteq> []
   \<and> listen_subscribe (emit EventBus_init ''transcription'' (PInt 0)) (Some ''transcription'')
       = ((emit EventBus_init ''transcription'' (PInt 0))
            \<lparr>subscribers := [''transcription'' \<mapsto> [[]]]\<rparr>,
          SubscriberQueue ''transcription'' 0)
   \<and> map_option fst
         (queue_get (emit_all ((emit EventBus_init ''transcription'' (PInt 0))
                                 \<lparr>subscribers := [''transcription'' \<mapsto> [[]]]\<rparr>)
                       [(''speech_start'', PDict []), (''transcription'', PInt 1),
                        (''transcription'', PInt 2)])
                    (SubscriberQueue ''transcription'' 0))
       = Some \<lparr>ev_type = ''transcription'', ev_payload = PInt 1\<rparr>"
proof -
  have a: "''transcription'' \<noteq> []" by simp
  have b: "listen_subscribe (emit EventBus_init ''transcription'' (PInt 0)) (Some ''transcription'')
       = ((emit EventBus_init ''transcription'' (PInt 0))
            \<lparr>subscribers := [''transcription'' \<mapsto> [[]]]\<rparr>,
          SubscriberQueue ''transcription'' 0)"
    by (simp add: listen_subscribe_def emit_def EventBus_init_def Let_def)
  from listen_registers_fresh_queue [OF a b] a b show ?thesis
    by (simp add: mk_event_def)
qed

section \<open>Properties of the supervisor's start\<close>

lemma start_modules_prefix:
  assumes "\<forall>x\<in>set pre. start_raises x = None"
  shows "start_modules (pre @ rest) c =
           start_modules rest (c\<lparr>start_calls := start_calls c @ pre,
                                  tasks := tasks c @ map LoopTask pre\<rparr>)"
  using assms
proof (induction pre arbitrary: c)
  case Nil
  show ?case by simp
next
  case (Cons x pre)
  then show ?case by (simp add: Let_def)
qed

text \<open>
  Claim C8.  When the modules before \<open>m\<close> in the configured order start and the
  \<open>start()\<close> of \<open>m\<close> raises \<open>e\<close>, the supervisor's \<open>start\<close> raises \<open>e\<close>; the calls of
  \<open>module.start()\<close> made are those of the modules before \<open>m\<close> and of \<open>m\<close>, none of a
  later module; and the loop tasks scheduled are those of the modules before \<open>m\<close> only (none
  for \<open>m\<close>, none for a later module, and no dispatch task).
\<close>

theorem start_failure_aborts:
  assumes "modules c = pre @ m # post"
    and "\<forall>x\<in>set pre. start_raises x = None"
    and "start_raises m = Some e"
  shows "start c = (Some e, c\<lparr>start_calls := start_calls c @ pre @ [m],
                               tasks := tasks c @ map LoopTask pre,
                               log := log c @ [StartingAgentCore]\<rparr>)"
proof -
  have "start_modules (modules c) (print StartingAgentCore c)
          = start_modules (m # post) ((print StartingAgentCore c)\<lparr>start_calls := start_calls c @ pre,
                                  tasks := tasks c @ map LoopTask pre\<rparr>)"
    using start_modules_prefix [OF assms(2), of "m # post" "print StartingAgentCore c"] assms(1)
    by (simp add: print_def)
  then show ?thesis
    using assms(3) by (simp add: start_def Let_def print_def)
qed

theorem start_failure_aborts_witness:
  "start (AgentCore_init [\<lparr>mod_name = ''WebCamModule'', start_raises = None\<rparr>,
                          \<lparr>mod_name = ''WakeWordVADModule'',
                           start_raises = Some (PyException ''Failed to open audio stream'')\<rparr>,
                          \<lparr>mod_name = ''SpeakersModule'', start_raises = None\<rparr>] None ''User'')
   = (Some (PyException ''Failed to open audio stream''),
      (AgentCore_init [\<lparr>mod_name = ''WebCamModule'', start_raises = None\<rparr>,
                          \<lparr>mod_name = ''WakeWordVADModule'',
                           start_raises = Some (PyException ''Failed to open audio stream'')\<rparr>,
                          \<lparr>mod_name = ''SpeakersModule'', start_raises = None\<rparr>] None ''User'')
        \<lparr>start_calls := [\<lparr>mod_name = ''WebCamModule'', start_raises = None\<rparr>,
                          \<lparr>mod_name = ''WakeWordVADModule'',
                           start_raises = Some (PyException ''Failed to open audio stream'')\<rparr>],
         tasks := [LoopTask \<lparr>mod_name = ''WebCamModule'', start_raises = None\<rparr>],
         log := [StartingAgentCore]\<rparr>)"
  using start_failure_aborts [of "AgentCore_init [\<lparr>mod_name = ''WebCamModule'', start_raises = None\<rparr>,
                          \<lparr>mod_name = ''WakeWordVADModule'',
                           start_raises = Some (PyException ''Failed to open audio stream'')\<rparr>,
                          \<lparr>mod_name = ''SpeakersModule'', start_raises = None\<rparr>] None ''User''"
       "[\<lparr>mod_name = ''WebCamModule'', start_raises = None\<rparr>]"
       "\<lparr>mod_name = ''WakeWordVADModule'',
                           start_raises = Some (PyException ''Failed to open audio stream'')\<rparr>"
       "[\<lparr>mod_name = ''SpeakersModule'', start_raises = None\<rparr>]"
       "PyException ''Failed to open audio stream''"]
  by (simp add: AgentCore_init_def)

section \<open>Properties of the chat workflow and of the dispatch loop\<close>

lemma strip_empty_iff: "strip sp s = [] \<longleftrightarrow> (\<forall>x\<in>set s. sp x)"
proof -
  have "strip sp s = [] \<longleftrightarrow> dropWhile sp (rev (dropWhile sp s)) = []"
    by (simp add: strip_def)
  also have "\<dots> \<longleftrightarrow> (\<forall>x\<in>set (dropWhile sp s). sp x)"
    by (simp add: dropWhile_eq_Nil_conv)
  also have "\<dots> \<longleftrightarrow> dropWhile sp s = []"
  proof
    assume a: "\<forall>x\<in>set (dropWhile sp s). sp x"
    show "dropWhile sp s = []"
    proof (rule ccontr)
      assume "dropWhile sp s \<noteq> []"
      then have "\<not> sp (hd (dropWhile sp s))" by (rule hd_dropWhile)
      moreover have "hd (dropWhile sp s) \<in> set (dropWhile sp s)"
        using \<open>dropWhile sp s \<noteq> []\<close> by simp
      ultimately show False using a by blast
    qed
  qed (auto dest: set_dropWhileD)
  also have "\<dots> \<longleftrightarrow> (\<forall>x\<in>set s. sp x)"
    by (simp add: dropWhile_eq_Nil_conv)
  finally show ?thesis .
qed

lemma handle_transcription_blank:
  assumes "\<forall>x\<in>set s. isspace x"
  shows "handle_transcription gw (PStr s) c = (None, c)"
  using assms strip_empty_iff [of isspace s]
  by (simp add: handle_transcription_def py_strip_def)

lemma handle_transcription_calls:
  assumes "strip isspace s \<noteq> []"
  shows "handle_transcription gw (PStr s) c =
           (case chat_try gw (PStr s) c of
              (Some e, c1) \<Rightarrow> chat_except e c1
            | (None, c1) \<Rightarrow> (None, c1))"
proof -
  have "s \<noteq> []" using assms by (auto simp: strip_def)
  then show ?thesis using assms
    by (simp add: handle_transcription_def py_strip_def)
qed

lemma chat_try_raises:
  assumes "gw (length (chat_calls c)) (chat_request_of c text') = Raises e"
  shows "chat_try gw text' c =
           (Some e, c\<lparr>log := log c @ [ChatSending text'],
                       chat_calls := chat_calls c @ [chat_request_of c text']\<rparr>)"
  using assms by (simp add: chat_try_def Let_def print_def chat_request_of_def)

lemma chat_try_returns:
  assumes "gw (length (chat_calls c)) (chat_request_of c text') = Returns result"
  shows "chat_try gw text' c =
           handle_chat_result result
             (c\<lparr>log := log c @ [ChatSending text'],
                 chat_calls := chat_calls c @ [chat_request_of c text'],
                 chat_history := chat_history c @ [(''user'', text')]\<rparr>)"
  using assms by (simp add: chat_try_def Let_def print_def chat_request_of_def)

lemma strip_hello: "strip isspace ''hello'' = ''hello''"
  by (simp add: strip_def isspace_def)

text \<open>
  Claim C10.  For a transcription text that is not blank, so that the gateway is called: when
  the call of \<open>backend.chat\<close> raises, the chat history is what it was before (the user
  turn is not appended), the bus is unchanged (no \<open>agent_response\<close> is published), and the
  call has been made.  An \<open>Exception\<close> is caught and logged in \<open>_handle_transcription\<close>;
  a cancellation is passed on.
\<close>

theorem gateway_raise_leaves_history:
  assumes "strip isspace s \<noteq> []"
    and "gw (length (chat_calls c)) (chat_request_of c (PStr s)) = Raises e"
  shows "chat_history (snd (handle_transcription gw (PStr s) c)) = chat_history c
         \<and> core_event_bus (snd (handle_transcription gw (PStr s) c)) = core_event_bus c
         \<and> chat_calls (snd (handle_transcription gw (PStr s) c))
             = chat_calls c @ [chat_request_of c (PStr s)]
         \<and> fst (handle_transcription gw (PStr s) c)
             = (case e of PyException msg \<Rightarrow> None | CancelledError \<Rightarrow> Some CancelledError)"
  using chat_try_raises [of gw c "PStr s" e] assms(2)
  by (simp add: handle_transcription_calls [OF assms(1)]
        chat_except_def print_def split: exc.splits)

theorem gateway_raise_leaves_history_witness:
  "strip isspace ''hello'' \<noteq> []
   \<and> timeout_gateway 0 (chat_request_of (core_with_queue []) (PStr ''hello''))
       = Raises (PyException ''ReadTimeout'')
   \<and> chat_history (snd (handle_transcription timeout_gateway (PStr ''hello'') (core_with_queue []))) = []
   \<and> default_queue (core_event_bus
         (snd (handle_transcription timeout_gateway (PStr ''hello'') (core_with_queue [])))) = []
   \<and> length (chat_calls (snd (handle_transcription timeout_gateway (PStr ''hello'')
         (core_with_queue [])))) = 1
   \<and> fst (handle_transcription timeout_gateway (PStr ''hello'') (core_with_queue [])) = None"
proof -
  have a: "strip isspace ''hello'' \<noteq> []" by (simp add: strip_hello)
  have b: "timeout_gateway (length (chat_calls (core_with_queue [])))
             (chat_request_of (core_with_queue []) (PStr ''hello''))
           = Raises (PyException ''ReadTimeout'')"
    by (simp add: timeout_gateway_def)
  from gateway_raise_leaves_history
         [of "''hello''" timeout_gateway "core_with_queue []" "PyException ''ReadTimeout''"] a b
  show ?thesis
    by (simp add: core_with_queue_def AgentCore_init_def timeout_gateway_def)
qed

lemma handle_chat_result_error:
  assumes "map_of d ''response'' = Some (PDict r)" and "map_of r ''error'' = Some err"
  shows "handle_chat_result (PDict d) c =
          (None, if truthy (case map_of d ''paymentResponse'' of None \<Rightarrow> PNone | Some x \<Rightarrow> x)
                 then print (ChatPaymentProcessed (case map_of d ''paymentResponse'' of None \<Rightarrow> PNone | Some x \<Rightarrow> x))
                        (print (ChatErrorResponse err) c)
                 else print (ChatErrorResponse err) c)"
proof -
  have "r \<noteq> []" using assms(2) by auto
  then show ?thesis using assms
    by (simp add: handle_chat_result_def handle_chat_response_def dict_get_def
        py_contains_def py_getitem_def)
qed

text \<open>
  Claim C4.  For a transcription text that is not blank: when \<open>backend.chat\<close> returns a
  result whose \<open>"response"\<close> is a dict with the key \<open>"error"\<close>, the chat history gains
  the user turn and nothing else, the bus is unchanged (no \<open>agent_response\<close> is
  published), and nothing is raised.
\<close>

theorem gateway_error_response:
  assumes "strip isspace s \<noteq> []"
    and "gw (length (chat_calls c)) (chat_request_of c (PStr s)) = Returns (PDict d)"
    and "map_of d ''response'' = Some (PDict r)"
    and "map_of r ''error'' = Some err"
  shows "fst (handle_transcription gw (PStr s) c) = None
         \<and> chat_history (snd (handle_transcription gw (PStr s) c))
             = chat_history c @ [(''user'', PStr s)]
         \<and> core_event_bus (snd (handle_transcription gw (PStr s) c)) = core_event_bus c"
  using chat_try_returns [of gw c "PStr s" "PDict d"] assms(2)
  by (simp add: handle_transcription_calls [OF assms(1)]
        handle_chat_result_error [OF assms(3,4)] print_def)


theorem gateway_error_response_witness:
  "strip isspace ''hello'' \<noteq> []
   \<and> fst (handle_transcription error_gateway (PStr ''hello'') (core_with_queue [])) = None
   \<and> chat_history (snd (handle_transcription error_gateway (PStr ''hello'') (core_with_queue [])))
       = [(''user'', PStr ''hello'')]
   \<and> default_queue (core_event_bus
         (snd (handle_transcription error_gateway (PStr ''hello'') (core_with_queue [])))) = []"
proof -
  have a: "strip isspace ''hello'' \<noteq> []" by (simp add: strip_hello)
  have b: "error_gateway (length (chat_calls (core_with_queue [])))
             (chat_request_of (core_with_queue []) (PStr ''hello''))
           = Returns (PDict [(''paymentResponse'', PNone),
                     (''response'', PDict [(''error'', PStr ''timeout'')])])"
    by (simp add: error_gateway_def)
  have c: "map_of [(''paymentResponse'', PNone),
                     (''response'', PDict [(''error'', PStr ''timeout'')])] ''response''
           = Some (PDict [(''error'', PStr ''timeout'')])"
    by simp
  have d: "map_of [(''error'', PStr ''timeout'')] ''error'' = Some (PStr ''timeout'')" by simp
  from gateway_error_response
         [of "''hello''" error_gateway "core_with_queue []"
             "[(''paymentResponse'', PNone), (''response'', PDict [(''error'', PStr ''timeout'')])]"
             "[(''error'', PStr ''timeout'')]" "PStr ''timeout''"] a b c d
  show ?thesis
    by (simp add: core_with_queue_def AgentCore_init_def)
qed

text \<open>
  The same holds when the returned dict itself carries the key \<open>"error"\<close> and has no
  \<open>"response"\<close>.
\<close>

lemma gateway_top_level_error:
  assumes "strip isspace s \<noteq> []"
    and "gw (length (chat_calls c)) (chat_request_of c (PStr s)) = Returns (PDict d)"
    and "map_of d ''response'' = None"
  shows "fst (handle_transcription gw (PStr s) c) = None
         \<and> chat_history (snd (handle_transcription gw (PStr s) c))
             = chat_history c @ [(''user'', PStr s)]
         \<and> core_event_bus (snd (handle_transcription gw (PStr s) c)) = core_event_bus c"
  using chat_try_returns [of gw c "PStr s" "PDict d"] assms(2,3)
  by (simp add: handle_transcription_calls [OF assms(1)] handle_chat_result_def dict_get_def
        print_def)

lemma event_handler_loop_step:
  assumes "default_queue (core_event_bus c) = ev # rest"
  shows "event_handler_loop interp gw c =
           (case loop_iteration interp gw ev (after_listen c) of
              (Break, c1) \<Rightarrow> (Exited, c1)
            | (Continue, c1) \<Rightarrow> event_handler_loop interp gw c1)"
  by (subst event_handler_loop.simps) (simp add: queue_get_def after_listen_def assms)

lemma event_handler_loop_continue:
  assumes "default_queue (core_event_bus c) = ev # rest"
    and "loop_iteration interp gw ev (after_listen c) = (Continue, c1)"
  shows "event_handler_loop interp gw c = event_handler_loop interp gw c1"
  using event_handler_loop_step [OF assms(1), of interp gw] assms(2) by simp

lemma after_listen_fields [simp]:
  "chat_calls (after_listen c) = chat_calls c"
  "chat_history (after_listen c) = chat_history c"
  "log (after_listen c) = log c"
  "chat_request_of (after_listen c) v = chat_request_of c v"
  by (simp_all add: after_listen_def chat_request_of_def)

lemma py_str_error_PStr [simp]: "py_str_error interp (PStr s) = None"
  by (simp add: py_str_error_def)

lemma format_2f_error_overflow:
  assumes "\<not> \<bar>i\<bar> < 2 ^ 1024 - 2 ^ 970"
  shows "format_2f_error (PInt i) = Some ''OverflowError: int too large to convert to float''"
  using assms by simp

lemma format_2f_error_example:
  "format_2f_error (PInt (10 ^ 400)) = Some ''OverflowError: int too large to convert to float''"
proof (rule format_2f_error_overflow)
  show "\<not> \<bar>10 ^ 400 :: int\<bar> < 2 ^ 1024 - 2 ^ 970" by simp
qed

lemma transcription_event_format_error:
  assumes "dict_get payload ''text'' PNone = Inr (PStr s)"
    and "dict_get payload ''audio_duration'' (PInt 0) = Inr duration"
    and "format_2f_error duration = Some msg"
  shows "transcription_event interp gw payload c = (Some (PyException msg), c)"
proof -
  from assms(1) obtain d where d: "payload = PDict d"
    by (cases payload) (simp_all add: dict_get_def)
  have "dict_get payload ''provider'' (PStr ''unknown'')
          = Inr (case map_of d ''provider'' of None \<Rightarrow> PStr ''unknown'' | Some x \<Rightarrow> x)"
    by (simp add: d dict_get_def)
  then show ?thesis
    by (simp add: transcription_event_def assms)
qed

lemma blank_transcription_iteration:
  assumes "ev_type ev = ''transcription''"
    and "dict_get (ev_payload ev) ''text'' PNone = Inr (PStr s)"
    and "\<forall>x\<in>set s. isspace x"
  shows "fst (loop_iteration interp gw ev c) = Continue
         \<and> chat_calls (snd (loop_iteration interp gw ev c)) = chat_calls c
         \<and> chat_history (snd (loop_iteration interp gw ev c)) = chat_history c
         \<and> core_event_bus (snd (loop_iteration interp gw ev c)) = core_event_bus c"
proof -
  from assms(2) obtain d where d: "ev_payload ev = PDict d"
    by (cases "ev_payload ev") (simp_all add: dict_get_def)
  let ?duration = "case map_of d ''audio_duration'' of None \<Rightarrow> PInt 0 | Some x \<Rightarrow> x"
  let ?provider = "case map_of d ''provider'' of None \<Rightarrow> PStr ''unknown'' | Some x \<Rightarrow> x"
  show ?thesis
  proof (cases "first_error [py_str_error interp (PStr s), format_2f_error ?duration,
                             py_str_error interp ?provider]")
    case None
    then show ?thesis
      using assms
      by (simp add: loop_iteration_def process_event_def transcription_event_def d dict_get_def
          handle_transcription_blank print_def Let_def)
  next
    case (Some msg)
    then show ?thesis
      using assms
      by (simp add: loop_iteration_def process_event_def transcription_event_def d dict_get_def
          print_def Let_def)
  qed
qed

lemma raised_exception_iteration:
  assumes "process_event interp gw ev c = (Some (PyException msg), c1)"
  shows "loop_iteration interp gw ev c = (Continue, print (EventHandlerError msg) c1)"
  using assms by (simp add: loop_iteration_def)

lemma gateway_raise_iteration:
  assumes "ev_type ev = ''transcription''"
    and "dict_get (ev_payload ev) ''text'' PNone = Inr (PStr s)"
    and "strip isspace s \<noteq> []"
    and "dict_get (ev_payload ev) ''audio_duration'' (PInt 0) = Inr duration"
    and "format_2f_error duration = None"
    and "dict_get (ev_payload ev) ''provider'' (PStr ''unknown'') = Inr provider"
    and "py_str_error interp provider = None"
    and "gw (length (chat_calls c)) (chat_request_of c (PStr s)) = Raises (PyException msg)"
  shows "fst (loop_iteration interp gw ev c) = Continue
         \<and> last (log (snd (loop_iteration interp gw ev c))) = chat_error_line msg
         \<and> chat_calls (snd (loop_iteration interp gw ev c))
             = chat_calls c @ [chat_request_of c (PStr s)]"
proof -
  define c0 where "c0 = print (EventTranscription (PStr s) duration provider) c"
  have req: "gw (length (chat_calls c0)) (chat_request_of c0 (PStr s)) = Raises (PyException msg)"
    using assms(8) by (simp add: c0_def print_def chat_request_of_def)
  have "process_event interp gw ev c = handle_transcription gw (PStr s) c0"
    using assms(1,2,4,5,6,7)
    by (simp add: process_event_def transcription_event_def Let_def c0_def)
  moreover have "handle_transcription gw (PStr s) c0
      = (None, print (chat_error_line msg)
                 (c0\<lparr>log := log c0 @ [ChatSending (PStr s)],
                      chat_calls := chat_calls c0 @ [chat_request_of c0 (PStr s)]\<rparr>))"
    using chat_try_raises [of gw c0 "PStr s" "PyException msg"] req
    by (simp add: handle_transcription_calls [OF assms(3)] chat_except_def)
  ultimately show ?thesis
    by (simp add: loop_iteration_def print_def c0_def chat_request_of_def)
qed

lemma cancellation_exits:
  assumes "default_queue (core_event_bus c) = ev # rest"
    and "process_event interp gw ev (after_listen c) = (Some CancelledError, c1)"
  shows "event_handler_loop interp gw c = (Exited, c1)"
  using event_handler_loop_step [OF assms(1), of interp gw] assms(2)
  by (simp add: loop_iteration_def)

text \<open>
  Claim C3, as stated, fails for one exception: the cancellation of the task.  When the call
  of \<open>backend.chat\<close> raises \<open>asyncio.CancelledError\<close>, which is not an \<open>Exception\<close>,
  neither \<open>except Exception\<close> clause catches it and the loop leaves by \<open>break\<close>: nothing
  is printed for it, and the next event stays in the queue, unprocessed.
\<close>

theorem cancellation_ends_loop_counterexample:
  "fst (event_handler_loop example_interpreter cancelling_gateway
          (core_with_queue
             [\<lparr>ev_type = ''transcription'', ev_payload = PDict [(''text'', PStr ''hello'')]\<rparr>,
              \<lparr>ev_type = ''transcription'', ev_payload = PDict [(''text'', PStr ''again'')]\<rparr>]))
     = Exited
   \<and> default_queue (core_event_bus (snd (event_handler_loop example_interpreter cancelling_gateway
          (core_with_queue
             [\<lparr>ev_type = ''transcription'', ev_payload = PDict [(''text'', PStr ''hello'')]\<rparr>,
              \<lparr>ev_type = ''transcription'', ev_payload = PDict [(''text'', PStr ''again'')]\<rparr>]))))
     = [\<lparr>ev_type = ''transcription'', ev_payload = PDict [(''text'', PStr ''again'')]\<rparr>]
   \<and> log (snd (event_handler_loop example_interpreter cancelling_gateway
          (core_with_queue
             [\<lparr>ev_type = ''transcription'', ev_payload = PDict [(''text'', PStr ''hello'')]\<rparr>,
              \<lparr>ev_type = ''transcription'', ev_payload = PDict [(''text'', PStr ''again'')]\<rparr>])))
     = [EventTranscription (PStr ''hello'') (PInt 0) (PStr ''unknown''),
        ChatSending (PStr ''hello'')]"
proof -
  let ?hello = "\<lparr>ev_type = ''transcription'', ev_payload = PDict [(''text'', PStr ''hello'')]\<rparr>"
  let ?again = "\<lparr>ev_type = ''transcription'', ev_payload = PDict [(''text'', PStr ''again'')]\<rparr>"
  let ?c1 = "(core_with_queue [?again])
               \<lparr>log := [EventTranscription (PStr ''hello'') (PInt 0) (PStr ''unknown''),
                        ChatSending (PStr ''hello'')],
                chat_calls := [chat_request_of (core_with_queue []) (PStr ''hello'')]\<rparr>"
  have q: "default_queue (core_event_bus (core_with_queue [?hello, ?again])) = ?hello # [?again]"
    by (simp add: core_with_queue_def)
  have al: "after_listen (core_with_queue [?hello, ?again]) = core_with_queue [?again]"
    by (simp add: after_listen_def core_with_queue_def)
  have "handle_transcription cancelling_gateway (PStr ''hello'')
          (print (EventTranscription (PStr ''hello'') (PInt 0) (PStr ''unknown''))
             (core_with_queue [?again]))
        = (Some CancelledError, ?c1)"
    using chat_try_raises [of cancelling_gateway
        "print (EventTranscription (PStr ''hello'') (PInt 0) (PStr ''unknown''))
             (core_with_queue [?again])" "PStr ''hello''" CancelledError]
    by (simp add: handle_transcription_calls strip_hello chat_except_def cancelling_gateway_def
        print_def core_with_queue_def AgentCore_init_def chat_request_of_def)
  then have "process_event example_interpreter cancelling_gateway ?hello
               (after_listen (core_with_queue [?hello, ?again]))
             = (Some CancelledError, ?c1)"
    by (simp add: al process_event_def transcription_event_def dict_get_def)
  from cancellation_exits [OF q this]
  show ?thesis by (simp add: core_with_queue_def)
qed

text \<open>
  Claim C3, amended.  Let \<open>ev\<close> be the event that \<open>listen()\<close> returns to the dispatch
  loop.  (1) If \<open>ev\<close> is a transcription whose text is empty or only whitespace, the
  iteration makes no call of \<open>backend.chat\<close> and the loop goes on with the rest of the
  queue.  (2) If the processing of \<open>ev\<close> raises an instance of \<open>Exception\<close>, that is any
  exception other than the cancellation of the task, the loop prints the error and goes on
  with the rest of the queue.  (3) If \<open>ev\<close> is a transcription, with a text that is not
  blank and a duration and a provider that the loop can print, for which \<open>backend.chat\<close> is
  therefore called, and the call raises an instance of \<open>Exception\<close>, such as a timeout, then
  the call has been made, the error line of the chat handler is the last line printed, and the
  loop goes on with the rest of the queue.
\<close>

theorem dispatch_resilience:
  assumes "default_queue (core_event_bus c) = ev # rest"
  shows "(\<forall>s. ev_type ev = ''transcription''
              \<and> dict_get (ev_payload ev) ''text'' PNone = Inr (PStr s)
              \<and> (\<forall>x\<in>set s. isspace x)
            \<longrightarrow> (\<exists>c1. loop_iteration interp gw ev (after_listen c) = (Continue, c1)
                      \<and> chat_calls c1 = chat_calls c
                      \<and> event_handler_loop interp gw c = event_handler_loop interp gw c1))
         \<and> (\<forall>msg c1. process_event interp gw ev (after_listen c) = (Some (PyException msg), c1)
            \<longrightarrow> event_handler_loop interp gw c
                  = event_handler_loop interp gw (print (EventHandlerError msg) c1))
         \<and> (\<forall>s duration provider msg.
               ev_type ev = ''transcription''
               \<and> dict_get (ev_payload ev) ''text'' PNone = Inr (PStr s)
               \<and> strip isspace s \<noteq> []
               \<and> dict_get (ev_payload ev) ''audio_duration'' (PInt 0) = Inr duration
               \<and> format_2f_error duration = None
               \<and> dict_get (ev_payload ev) ''provider'' (PStr ''unknown'') = Inr provider
               \<and> py_str_error interp provider = None
               \<and> gw (length (chat_calls c)) (chat_request_of c (PStr s)) = Raises (PyException msg)
            \<longrightarrow> (\<exists>c1. loop_iteration interp gw ev (after_listen c) = (Continue, c1)
                      \<and> chat_calls c1 = chat_calls c @ [chat_request_of c (PStr s)]
                      \<and> last (log c1) = chat_error_line msg
                      \<and> event_handler_loop interp gw c = event_handler_loop interp gw c1))"
proof (intro conjI allI impI)
  fix s
  assume a: "ev_type ev = ''transcription''
              \<and> dict_get (ev_payload ev) ''text'' PNone = Inr (PStr s)
              \<and> (\<forall>x\<in>set s. isspace x)"
  obtain k c1 where it: "loop_iteration interp gw ev (after_listen c) = (k, c1)"
    by (cases "loop_iteration interp gw ev (after_listen c)")
  from a blank_transcription_iteration [of ev s interp gw "after_listen c"] it
  have "k = Continue" "chat_calls c1 = chat_calls c" by simp_all
  with it event_handler_loop_continue [OF assms, of interp gw c1]
  show "\<exists>c1. loop_iteration interp gw ev (after_listen c) = (Continue, c1)
                      \<and> chat_calls c1 = chat_calls c
                      \<and> event_handler_loop interp gw c = event_handler_loop interp gw c1"
    by simp
next
  fix msg c1
  assume "process_event interp gw ev (after_listen c) = (Some (PyException msg), c1)"
  then have "loop_iteration interp gw ev (after_listen c)
               = (Continue, print (EventHandlerError msg) c1)"
    by (rule raised_exception_iteration)
  with event_handler_loop_continue [OF assms]
  show "event_handler_loop interp gw c
          = event_handler_loop interp gw (print (EventHandlerError msg) c1)"
    by simp
next
  fix s duration provider msg
  assume a: "ev_type ev = ''transcription''
               \<and> dict_get (ev_payload ev) ''text'' PNone = Inr (PStr s)
               \<and> strip isspace s \<noteq> []
               \<and> dict_get (ev_payload ev) ''audio_duration'' (PInt 0) = Inr duration
               \<and> format_2f_error duration = None
               \<and> dict_get (ev_payload ev) ''provider'' (PStr ''unknown'') = Inr provider
               \<and> py_str_error interp provider = None
               \<and> gw (length (chat_calls c)) (chat_request_of c (PStr s)) = Raises (PyException msg)"
  obtain k c1 where it: "loop_iteration interp gw ev (after_listen c) = (k, c1)"
    by (cases "loop_iteration interp gw ev (after_listen c)")
  from a gateway_raise_iteration [of ev s duration provider interp gw "after_listen c" msg] it
  have "k = Continue" "last (log c1) = chat_error_line msg"
    "chat_calls c1 = chat_calls c @ [chat_request_of c (PStr s)]"
    by simp_all
  with it event_handler_loop_continue [OF assms, of interp gw c1]
  show "\<exists>c1. loop_iteration interp gw ev (after_listen c) = (Continue, c1)
                      \<and> chat_calls c1 = chat_calls c @ [chat_request_of c (PStr s)]
                      \<and> last (log c1) = chat_error_line msg
                      \<and> event_handler_loop interp gw c = event_handler_loop interp gw c1"
    by simp
qed

theorem dispatch_resilience_witness:
  "(\<exists>c1. loop_iteration example_interpreter timeout_gateway
            \<lparr>ev_type = ''transcription'', ev_payload = PDict [(''text'', PStr ''  '')]\<rparr>
            (after_listen (core_with_queue [\<lparr>ev_type = ''transcription'', ev_payload = PDict [(''text'', PStr ''  '')]\<rparr>]))
          = (Continue, c1)
        \<and> chat_calls c1 = []
        \<and> event_handler_loop example_interpreter timeout_gateway
            (core_with_queue [\<lparr>ev_type = ''transcription'', ev_payload = PDict [(''text'', PStr ''  '')]\<rparr>])
          = event_handler_loop example_interpreter timeout_gateway c1)
   \<and> event_handler_loop example_interpreter timeout_gateway
        (core_with_queue [\<lparr>ev_type = ''transcription'',
                           ev_payload = PDict [(''text'', PStr ''hello''),
                                               (''audio_duration'', PStr ''long'')]\<rparr>])
      = event_handler_loop example_interpreter timeout_gateway
          (print (EventHandlerError ''ValueError: Unknown format code f for object of type str'')
             (core_with_queue []))
   \<and> (\<exists>c1. loop_iteration example_interpreter timeout_gateway
            \<lparr>ev_type = ''transcription'', ev_payload = PDict [(''text'', PStr ''hello'')]\<rparr>
            (after_listen (core_with_queue [\<lparr>ev_type = ''transcription'', ev_payload = PDict [(''text'', PStr ''hello'')]\<rparr>]))
          = (Continue, c1)
        \<and> chat_calls c1 = [chat_request_of (core_with_queue []) (PStr ''hello'')]
        \<and> last (log c1) = ChatErrorTimedOut ''ReadTimeout''
        \<and> event_handler_loop example_interpreter timeout_gateway
            (core_with_queue [\<lparr>ev_type = ''transcription'', ev_payload = PDict [(''text'', PStr ''hello'')]\<rparr>])
          = event_handler_loop example_interpreter timeout_gateway c1)"
proof -
  have q: "default_queue (core_event_bus (core_with_queue [e])) = e # []" for e
    by (simp add: core_with_queue_def)
  have al: "after_listen (core_with_queue [e]) = core_with_queue []" for e
    by (simp add: after_listen_def core_with_queue_def)
  have blank: "\<forall>x\<in>set ''  ''. isspace x" by (simp add: isspace_def)
  have line: "chat_error_line ''ReadTimeout'' = ChatErrorTimedOut ''ReadTimeout''"
    by (simp add: chat_error_line_def)
  have mal: "process_event example_interpreter timeout_gateway
               \<lparr>ev_type = ''transcription'',
                ev_payload = PDict [(''text'', PStr ''hello''),
                                    (''audio_duration'', PStr ''long'')]\<rparr> (core_with_queue [])
      = (Some (PyException ''ValueError: Unknown format code f for object of type str''), core_with_queue [])"
    by (simp add: process_event_def transcription_event_def dict_get_def)
  have calls: "chat_calls (core_with_queue q) = []" for q
    by (simp add: core_with_queue_def AgentCore_init_def)
  have req: "chat_request_of (core_with_queue [e]) v = chat_request_of (core_with_queue []) v" for e v
    by (simp add: chat_request_of_def core_with_queue_def)
  have gw: "timeout_gateway n r = Raises (PyException ''ReadTimeout'')" for n r
    by (simp add: timeout_gateway_def)
  show ?thesis
    using dispatch_resilience [OF q, of "\<lparr>ev_type = ''transcription'', ev_payload = PDict [(''text'', PStr ''  '')]\<rparr>" example_interpreter timeout_gateway]
      dispatch_resilience [OF q, of "\<lparr>ev_type = ''transcription'',
                ev_payload = PDict [(''text'', PStr ''hello''),
                                    (''audio_duration'', PStr ''long'')]\<rparr>" example_interpreter timeout_gateway]
      dispatch_resilience [OF q, of "\<lparr>ev_type = ''transcription'', ev_payload = PDict [(''text'', PStr ''hello'')]\<rparr>" example_interpreter timeout_gateway]
      blank mal
    by (simp add: al calls gw line dict_get_def strip_hello req)
qed

section \<open>Properties of the segmentation state machine and of the detector\<close>

lemma int16_bytes: 
  fixes s :: int16
  shows "or (push_bit 8 (ucast (ucast (drop_bit 8 s) :: byte))) (ucast (ucast s :: byte)) = s"
  by (rule bit_word_eqI) (auto simp: bit_simps)

lemma int16_pairs_tobytes: "int16_pairs (tobytes pcm) = pcm"
  by (induction pcm) (simp_all add: tobytes_def int16_bytes)

lemma length_tobytes: "length (tobytes pcm) = 2 * length pcm"
  by (induction pcm) (simp_all add: tobytes_def)

lemma frombuffer_tobytes: "frombuffer (tobytes pcm) = Inr pcm"
  by (simp add: frombuffer_def length_tobytes int16_pairs_tobytes)

lemma vad_tobytes:
  "process_audio_chunk_for_vad m (tobytes w) = (w \<noteq> [] \<and> criteria_met (vad_threshold m) w \<ge> 2)"
  by (simp add: process_audio_chunk_for_vad_def frombuffer_tobytes)

lemma is_speech_eq:
  "is_speech m pcm =
     (items (deque_extend (vad_buffer m) pcm) \<noteq> []
      \<and> criteria_met (vad_threshold m) (items (deque_extend (vad_buffer m) pcm)) \<ge> 2)"
  by (auto simp: is_speech_def Let_def vad_tobytes)

lemma drop_excess_twice:
  "drop (length (drop (length l - n) l @ ys) - n) (drop (length l - n) l @ ys)
     = drop (length (l @ ys) - n) (l @ ys)"
proof (cases "length l \<le> n")
  case True
  then show ?thesis by simp
next
  case False
  then have k: "length l - n \<le> length l" and n: "length l - (length l - n) = n" by simp_all
  have "drop (length (l @ ys) - n) (l @ ys) = drop (length ys + (length l - n)) (l @ ys)"
    using False by (simp add: add.commute)
  also have "\<dots> = drop (length ys) (drop (length l - n) (l @ ys))"
    by (simp only: drop_drop)
  also have "\<dots> = drop (length ys) (drop (length l - n) l @ ys)"
    using k by simp
  finally show ?thesis using n by simp
qed

lemma deque_extend_extend:
  "deque_extend (deque_extend d xs) ys = deque_extend d (xs @ ys)"
  using drop_excess_twice [of "items d @ xs" "maxlen d" ys]
  by (simp add: deque_extend_def Let_def)

lemma deque_extend_maxlen [simp]: "maxlen (deque_extend d xs) = maxlen d"
  by (simp add: deque_extend_def)

lemma length_deque_extend:
  "length (items (deque_extend d xs)) = min (maxlen d) (length (items d) + length xs)"
  by (auto simp: deque_extend_def Let_def)

lemma deque_extend_Nil:
  "length (items d) \<le> maxlen d \<Longrightarrow> deque_extend d [] = d"
  by (simp add: deque_extend_def)

lemma loop_body_undecodable:
  "frombuffer chunk = Inl e \<Longrightarrow> loop_body t chunk m = m"
  by (simp add: loop_body_def process_audio_chunk_def)

lemma samples_of_undecodable: "frombuffer chunk = Inl e \<Longrightarrow> samples_of chunk = []"
  by (simp add: samples_of_def)

lemma loop_body_silent:
  assumes "\<not> chunk_is_speech m chunk"
  shows "loop_body t chunk m =
           (let m1 = m\<lparr>speech_buffer := deque_extend (speech_buffer m) (samples_of chunk),
                       vad_buffer := deque_extend (vad_buffer m) (samples_of chunk)\<rparr>
            in case frombuffer chunk of
                 Inl e \<Rightarrow> m
               | Inr pcm \<Rightarrow>
                   (case last_speech_time m of
                      None \<Rightarrow> m1
                    | Some last_time \<Rightarrow>
                        if speech_detected m \<and> last_time \<noteq> 0
                           \<and> t - last_time \<ge> silence_timeout_ms m
                        then handle_speech_end m1 else m1))"
  using assms
  by (auto simp: loop_body_def process_audio_chunk_def chunk_is_speech_def samples_of_def Let_def
      split: sum.splits option.splits)

lemma loop_body_speech:
  assumes "chunk_is_speech m chunk"
  shows "loop_body t chunk m =
           (handle_speech_start
              (m\<lparr>speech_buffer := deque_extend (speech_buffer m) (samples_of chunk),
                  vad_buffer := deque_extend (vad_buffer m) (samples_of chunk)\<rparr>))
             \<lparr>last_speech_time := Some t\<rparr>"
  using assms
  by (auto simp: loop_body_def process_audio_chunk_def chunk_is_speech_def samples_of_def Let_def
      split: sum.splits option.splits)

lemma loop_body_silent_idle:
  assumes "\<not> chunk_is_speech m chunk" and "\<not> speech_detected m"
  shows "\<not> speech_detected (loop_body t chunk m)
         \<and> event_bus (loop_body t chunk m) = event_bus m
         \<and> running (loop_body t chunk m) = running m"
  using assms
  by (auto simp: loop_body_silent Let_def split: sum.splits option.splits)

lemma running_handle_speech_end [simp]: "running (handle_speech_end m) = running m"
  by (simp add: handle_speech_end_def Let_def)

lemma running_handle_speech_start [simp]: "running (handle_speech_start m) = running m"
  by (simp add: handle_speech_start_def)

lemma running_loop_body [simp]: "running (loop_body t chunk m) = running m"
proof (cases "chunk_is_speech m chunk")
  case True
  then show ?thesis by (simp add: loop_body_speech)
next
  case False
  show ?thesis
    unfolding loop_body_silent [OF False] Let_def
    by (simp split: sum.splits option.splits)
qed

lemma running_loop [simp]: "running (loop reads m) = running m"
proof (induction reads arbitrary: m)
  case Nil
  show ?case by simp
next
  case (Cons a reads)
  obtain t chunk where a: "a = (t, chunk)" by (cases a)
  show ?case using Cons.IH [of "loop_body t chunk m"] by (simp add: a)
qed

lemma loop_append: "running m \<Longrightarrow> loop (xs @ ys) m = loop ys (loop xs m)"
proof (induction xs arbitrary: m)
  case Nil
  show ?case by simp
next
  case (Cons a xs)
  obtain t chunk where a: "a = (t, chunk)" by (cases a)
  show ?case using Cons.IH [of "loop_body t chunk m"] Cons.prems by (simp add: a)
qed

lemma all_silent_append:
  "running m \<Longrightarrow> all_silent (xs @ ys) m = (all_silent xs m \<and> all_silent ys (loop xs m))"
proof (induction xs arbitrary: m)
  case Nil
  show ?case by simp
next
  case (Cons a xs)
  obtain t chunk where a: "a = (t, chunk)" by (cases a)
  show ?case using Cons.IH [of "loop_body t chunk m"] Cons.prems by (simp add: a)
qed

lemma silent_run_idle:
  assumes "running m" and "\<not> speech_detected m" and "all_silent reads m"
  shows "\<not> speech_detected (loop reads m) \<and> event_bus (loop reads m) = event_bus m"
  using assms
proof (induction reads arbitrary: m)
  case Nil
  then show ?case by simp
next
  case (Cons a reads)
  obtain t chunk where a: "a = (t, chunk)" by (cases a)
  from Cons.prems have s: "\<not> chunk_is_speech m chunk" and r: "all_silent reads (loop_body t chunk m)"
    by (simp_all add: a)
  from loop_body_silent_idle [OF s Cons.prems(2), of t]
  have i: "\<not> speech_detected (loop_body t chunk m)" "event_bus (loop_body t chunk m) = event_bus m"
    by simp_all
  from Cons.IH [of "loop_body t chunk m"] i r Cons.prems(1)
  show ?case by (simp add: a)
qed

lemma loop_body_silent_short:
  assumes "\<not> chunk_is_speech m chunk" and "last_speech_time m = Some t0"
    and "t - t0 < silence_timeout_ms m"
  shows "loop_body t chunk m =
           (if even (length chunk)
            then m\<lparr>speech_buffer := deque_extend (speech_buffer m) (samples_of chunk),
                   vad_buffer := deque_extend (vad_buffer m) (samples_of chunk)\<rparr>
            else m)"
  using assms
  by (auto simp: loop_body_silent Let_def frombuffer_def split: sum.splits)

lemma short_gap_run:
  assumes "running m" and "speech_detected m" and "last_speech_time m = Some t0"
    and "length (items (speech_buffer m)) \<le> maxlen (speech_buffer m)"
    and "all_silent gap m"
    and "\<forall>(t, chunk) \<in> set gap. t - t0 < silence_timeout_ms m"
  shows "event_bus (loop gap m) = event_bus m
         \<and> speech_detected (loop gap m)
         \<and> last_speech_time (loop gap m) = Some t0
         \<and> silence_timeout_ms (loop gap m) = silence_timeout_ms m
         \<and> speech_buffer (loop gap m)
             = deque_extend (speech_buffer m) (concat (map (\<lambda>(t, chunk). samples_of chunk) gap))"
  using assms
proof (induction gap arbitrary: m)
  case Nil
  then show ?case by (simp add: deque_extend_Nil)
next
  case (Cons a gap)
  obtain t chunk where a: "a = (t, chunk)" by (cases a)
  let ?m1 = "loop_body t chunk m"
  from Cons.prems have s: "\<not> chunk_is_speech m chunk" and r: "all_silent gap ?m1"
    and lt: "t - t0 < silence_timeout_ms m"
    by (simp_all add: a)
  note step = loop_body_silent_short [OF s Cons.prems(3) lt]
  have odd: "samples_of chunk = []" if "odd (length chunk)"
    using that by (simp add: samples_of_def frombuffer_def)
  have f: "event_bus ?m1 = event_bus m" "speech_detected ?m1" "last_speech_time ?m1 = Some t0"
    "silence_timeout_ms ?m1 = silence_timeout_ms m" "running ?m1"
    using Cons.prems(1,2,3) by (simp_all add: step)
  have b: "speech_buffer ?m1 = deque_extend (speech_buffer m) (samples_of chunk)"
    using odd Cons.prems(4) by (simp add: step deque_extend_Nil)
  have l: "length (items (speech_buffer ?m1)) \<le> maxlen (speech_buffer ?m1)"
    by (simp add: b length_deque_extend)
  have t: "\<forall>(t, chunk) \<in> set gap. t - t0 < silence_timeout_ms ?m1"
    using Cons.prems(6) f(4) by simp
  from Cons.IH [OF f(5) f(2) f(3) l r t] f b Cons.prems(1)
  show ?case by (simp add: a deque_extend_extend)
qed

text \<open>
  Claim C6.  In state \<open>SPEAKING\<close> with last speech time \<open>t0\<close>, when every chunk of a gap
  is classified silent and is processed less than \<open>silence_timeout_ms\<close> after \<open>t0\<close>, then
  after every prefix of the gap nothing has been published, the state is \<open>SPEAKING\<close>, and
  the utterance buffer is the one before the gap extended by the samples of every chunk of
  the prefix (within the bound of the deque, which discards the oldest samples).
\<close>

theorem short_gap_keeps_speaking:
  assumes "running m" and "speech_detected m" and "last_speech_time m = Some t0"
    and "length (items (speech_buffer m)) \<le> maxlen (speech_buffer m)"
    and "all_silent (pre @ post) m"
    and "\<forall>(t, chunk) \<in> set (pre @ post). t - t0 < silence_timeout_ms m"
  shows "event_bus (loop pre m) = event_bus m
         \<and> speech_detected (loop pre m)
         \<and> speech_buffer (loop pre m)
             = deque_extend (speech_buffer m) (concat (map (\<lambda>(t, chunk). samples_of chunk) pre))"
proof -
  from assms(5) have "all_silent pre m" by (simp add: all_silent_append assms(1))
  moreover from assms(6) have "\<forall>(t, chunk) \<in> set pre. t - t0 < silence_timeout_ms m" by auto
  ultimately show ?thesis
    using short_gap_run [OF assms(1-4), of pre] by simp
qed

lemma extended_fields [simp]:
  "speech_buffer (extended m chunk) = deque_extend (speech_buffer m) (samples_of chunk)"
  "vad_buffer (extended m chunk) = deque_extend (vad_buffer m) (samples_of chunk)"
  "speech_detected (extended m chunk) = speech_detected m"
  "last_speech_time (extended m chunk) = last_speech_time m"
  "event_bus (extended m chunk) = event_bus m"
  "running (extended m chunk) = running m"
  "rate (extended m chunk) = rate m"
  "sample_width (extended m chunk) = sample_width m"
  "channels (extended m chunk) = channels m"
  "vad_threshold (extended m chunk) = vad_threshold m"
  "silence_timeout_ms (extended m chunk) = silence_timeout_ms m"
  by (simp_all add: extended_def)

lemma loop_body_cases:
  "loop_body t chunk m =
     (if odd (length chunk) then m
      else if chunk_is_speech m chunk
        then (handle_speech_start (extended m chunk))\<lparr>last_speech_time := Some t\<rparr>
      else if speech_detected m
              \<and> (\<exists>last_time. last_speech_time m = Some last_time \<and> last_time \<noteq> 0
                     \<and> t - last_time \<ge> silence_timeout_ms m)
        then handle_speech_end (extended m chunk)
      else extended m chunk)"
proof (cases "chunk_is_speech m chunk")
  case True
  then have "even (length chunk)"
    by (auto simp: chunk_is_speech_def frombuffer_def split: if_splits)
  with True show ?thesis by (simp add: loop_body_speech extended_def)
next
  case False
  show ?thesis
    unfolding loop_body_silent [OF False] Let_def
    using False
    by (auto simp: frombuffer_def extended_def split: option.splits)
qed

lemma is_speech_after:
  assumes "vad_buffer m' = deque_extend (vad_buffer m) pcm" and "vad_threshold m' = vad_threshold m"
  shows "is_speech m' [] = is_speech m pcm"
  by (simp add: is_speech_eq assms deque_extend_extend)

lemma is_speech_Nil_empty:
  assumes "items (vad_buffer m) = []"
  shows "\<not> is_speech m []"
  using assms by (simp add: is_speech_eq deque_extend_def)

lemma items_deque_extend_Nil_iff:
  "items (deque_extend d xs) = [] \<longleftrightarrow> maxlen d = 0 \<or> (items d = [] \<and> xs = [])"
proof -
  have "items (deque_extend d xs) = [] \<longleftrightarrow> length (items (deque_extend d xs)) = 0"
    by simp
  also have "\<dots> \<longleftrightarrow> maxlen d = 0 \<or> (items d = [] \<and> xs = [])"
    unfolding length_deque_extend by (auto simp: min_def)
  finally show ?thesis .
qed

lemma chunk_is_speech_samples:
  "even (length chunk) \<Longrightarrow> chunk_is_speech m chunk = is_speech m (samples_of chunk)"
  by (simp add: chunk_is_speech_def samples_of_def frombuffer_def)

lemma segmentation_inv_extended:
  assumes "segmentation_inv m" and "even (length chunk)" and "\<not> chunk_is_speech m chunk"
  shows "segmentation_inv (extended m chunk)"
proof -
  let ?s = "samples_of chunk"
  have ns: "\<not> is_speech m ?s" using assms(2,3) by (simp add: chunk_is_speech_samples)
  have e: "\<not> is_speech (extended m chunk) []"
    using ns is_speech_after [of "extended m chunk" m ?s] by simp
  have d: "items (deque_extend (speech_buffer m) ?s) \<noteq> []" if "speech_detected m"
  proof -
    from that assms(1) have "items (speech_buffer m) \<noteq> []"
      and "length (items (speech_buffer m)) \<le> maxlen (speech_buffer m)"
      by (simp_all add: segmentation_inv_def)
    then have "0 < maxlen (speech_buffer m)"
      by (cases "items (speech_buffer m)") simp_all
    with \<open>items (speech_buffer m) \<noteq> []\<close> show ?thesis
      by (simp add: items_deque_extend_Nil_iff)
  qed
  show ?thesis
    using assms(1) e d
    by (simp add: segmentation_inv_def length_deque_extend)
qed

lemma segmentation_inv_speech:
  assumes "segmentation_inv m" and "even (length chunk)" and "chunk_is_speech m chunk"
    and "t \<noteq> 0"
  shows "segmentation_inv ((handle_speech_start (extended m chunk))\<lparr>last_speech_time := Some t\<rparr>)"
proof -
  let ?s = "samples_of chunk"
  let ?m = "(handle_speech_start (extended m chunk))\<lparr>last_speech_time := Some t\<rparr>"
  have sp: "is_speech m ?s" using assms(2,3) by (simp add: chunk_is_speech_samples)
  have f: "speech_buffer ?m = deque_extend (speech_buffer m) ?s"
    "vad_buffer ?m = deque_extend (vad_buffer m) ?s" "speech_detected ?m"
    "last_speech_time ?m = Some t"
    by (simp_all add: handle_speech_start_def)
  have ne: "items (deque_extend (speech_buffer m) ?s) \<noteq> []"
  proof
    assume "items (deque_extend (speech_buffer m) ?s) = []"
    then consider "maxlen (speech_buffer m) = 0" | "items (speech_buffer m) = []" "?s = []"
      by (auto simp: items_deque_extend_Nil_iff)
    then show False
    proof cases
      case 1
      with assms(1) have "maxlen (vad_buffer m) = 0" by (simp add: segmentation_inv_def)
      then have "items (deque_extend (vad_buffer m) ?s) = []"
        by (simp add: items_deque_extend_Nil_iff)
      with sp show False by (simp add: is_speech_eq)
    next
      case 2
      with assms(1) have "\<not> is_speech m []" by (simp add: segmentation_inv_def)
      with sp 2 show False by simp
    qed
  qed
  show ?thesis
    using assms(1,4) ne
    by (simp add: segmentation_inv_def f length_deque_extend)
qed

lemma segmentation_inv_end:
  assumes "segmentation_inv m" and "even (length chunk)" and "\<not> chunk_is_speech m chunk"
  shows "segmentation_inv (handle_speech_end (extended m chunk))"
proof (cases "items (speech_buffer (extended m chunk)) = []")
  case True
  then show ?thesis
    using segmentation_inv_extended [OF assms] by (simp add: handle_speech_end_def)
next
  case False
  let ?s = "samples_of chunk"
  let ?m = "handle_speech_end (extended m chunk)"
  have ns: "\<not> is_speech m ?s" using assms(2,3) by (simp add: chunk_is_speech_samples)
  have f: "items (speech_buffer ?m) = []" "maxlen (speech_buffer ?m) = maxlen (speech_buffer m)"
    "vad_buffer ?m = deque_extend (vad_buffer m) ?s" "\<not> speech_detected ?m"
    "vad_threshold ?m = vad_threshold m"
    using False by (simp_all add: handle_speech_end_def Let_def deque_clear_def)
  have e: "\<not> is_speech ?m []"
    using ns is_speech_after [OF f(3) f(5)] by simp
  show ?thesis
    using assms(1) e
    by (simp add: segmentation_inv_def f length_deque_extend)
qed

lemma segmentation_inv_loop_body:
  assumes "segmentation_inv m" and "t \<noteq> 0"
  shows "segmentation_inv (loop_body t chunk m)"
  using assms segmentation_inv_extended [of m chunk] segmentation_inv_speech [of m chunk t]
    segmentation_inv_end [of m chunk]
  by (simp add: loop_body_cases)

lemma segmentation_inv_loop:
  assumes "segmentation_inv m" and "\<forall>(t, chunk) \<in> set reads. t \<noteq> 0"
  shows "segmentation_inv (loop reads m)"
  using assms
proof (induction reads arbitrary: m)
  case Nil
  then show ?case by simp
next
  case (Cons a reads)
  obtain t chunk where a: "a = (t, chunk)" by (cases a)
  from Cons.prems have "t \<noteq> 0" and r: "\<forall>(t, chunk) \<in> set reads. t \<noteq> 0" by (simp_all add: a)
  from segmentation_inv_loop_body [OF Cons.prems(1) this(1), of chunk]
  have "segmentation_inv (loop_body t chunk m)" .
  from Cons.IH [OF this r] Cons.prems(1) show ?case by (simp add: a)
qed

lemma segmentation_inv_fresh: "segmentation_inv (fresh_module bus r threshold timeout_ms)"
  by (simp add: segmentation_inv_def fresh_module_def WakeWordVADModule_start_def
      WakeWordVADModule_init_def is_speech_Nil_empty)

lemma config_handle_speech_start [simp]:
  "rate (handle_speech_start m) = rate m" "sample_width (handle_speech_start m) = sample_width m"
  "channels (handle_speech_start m) = channels m"
  "silence_timeout_ms (handle_speech_start m) = silence_timeout_ms m"
  "vad_threshold (handle_speech_start m) = vad_threshold m"
  by (simp_all add: handle_speech_start_def)

lemma config_handle_speech_end [simp]:
  "rate (handle_speech_end m) = rate m" "sample_width (handle_speech_end m) = sample_width m"
  "channels (handle_speech_end m) = channels m"
  "silence_timeout_ms (handle_speech_end m) = silence_timeout_ms m"
  "vad_threshold (handle_speech_end m) = vad_threshold m"
  by (simp_all add: handle_speech_end_def Let_def)

lemma config_loop_body [simp]:
  "rate (loop_body t chunk m) = rate m" "sample_width (loop_body t chunk m) = sample_width m"
  "channels (loop_body t chunk m) = channels m"
  "silence_timeout_ms (loop_body t chunk m) = silence_timeout_ms m"
  by (simp_all add: loop_body_cases)

lemma config_loop [simp]:
  "rate (loop reads m) = rate m \<and> sample_width (loop reads m) = sample_width m
   \<and> channels (loop reads m) = channels m
   \<and> silence_timeout_ms (loop reads m) = silence_timeout_ms m"
proof (induction reads arbitrary: m)
  case Nil
  show ?case by simp
next
  case (Cons a reads)
  obtain t chunk where a: "a = (t, chunk)" by (cases a)
  show ?case using Cons.IH [of "loop_body t chunk m"] by (simp add: a)
qed

lemma audio_ready_payload_cong:
  "rate m' = rate m \<Longrightarrow> sample_width m' = sample_width m \<Longrightarrow> channels m' = channels m
   \<Longrightarrow> audio_ready_payload m' = audio_ready_payload m"
  by (simp add: audio_ready_payload_def fun_eq_iff)

lemma speech_buffer_loop_body:
  assumes "length (items (speech_buffer m)) \<le> maxlen (speech_buffer m)"
  shows "speech_buffer (loop_body t chunk m) =
           (if speech_detected m \<and> \<not> speech_detected (loop_body t chunk m)
            then \<lparr>items = [], maxlen = maxlen (speech_buffer m)\<rparr>
            else deque_extend (speech_buffer m) (samples_of chunk))"
proof (cases "odd (length chunk)")
  case True
  then have "samples_of chunk = []" by (simp add: samples_of_def frombuffer_def)
  with True assms show ?thesis by (simp add: loop_body_cases deque_extend_Nil)
next
  case False
  have clear: "deque_clear (deque_extend d xs) = \<lparr>items = [], maxlen = maxlen d\<rparr>"
    for d :: "int16 deque" and xs
    by (simp add: deque_clear_def deque_extend_def)
  show ?thesis
    using False
    by (auto simp: loop_body_cases handle_speech_start_def handle_speech_end_def Let_def clear)
qed

lemma speech_buffer_since_clear:
  assumes "running m" and "speech_buffer m = deque_extend \<lparr>items = [], maxlen = n\<rparr> acc"
  shows "speech_buffer (loop reads m) = deque_extend \<lparr>items = [], maxlen = n\<rparr> (since_clear reads m acc)"
  using assms
proof (induction reads arbitrary: m acc)
  case Nil
  then show ?case by simp
next
  case (Cons a reads)
  obtain t chunk where a: "a = (t, chunk)" by (cases a)
  let ?m1 = "loop_body t chunk m"
  let ?acc1 = "if speech_detected m \<and> \<not> speech_detected ?m1 then [] else acc @ samples_of chunk"
  have len: "length (items (speech_buffer m)) \<le> maxlen (speech_buffer m)"
    by (simp add: Cons.prems(2) length_deque_extend)
  have ml: "maxlen (speech_buffer m) = n" by (simp add: Cons.prems(2))
  have "speech_buffer ?m1 = deque_extend \<lparr>items = [], maxlen = n\<rparr> ?acc1"
    unfolding speech_buffer_loop_body [OF len] ml
    by (simp add: Cons.prems(2) deque_extend_extend) (simp add: deque_extend_def)
  from Cons.IH [OF _ this] Cons.prems(1)
  show ?case by (simp add: a)
qed

lemma fresh_module_fields:
  "running (fresh_module bus r threshold timeout_ms)"
  "\<not> speech_detected (fresh_module bus r threshold timeout_ms)"
  "event_bus (fresh_module bus r threshold timeout_ms) = bus"
  "speech_buffer (fresh_module bus r threshold timeout_ms) = \<lparr>items = [], maxlen = r * 10\<rparr>"
  "vad_buffer (fresh_module bus r threshold timeout_ms) = \<lparr>items = [], maxlen = r div 10\<rparr>"
  "silence_timeout_ms (fresh_module bus r threshold timeout_ms) = timeout_ms"
  "vad_threshold (fresh_module bus r threshold timeout_ms) = threshold"
  "sample_width (fresh_module bus r threshold timeout_ms) = 2"
  "rate (fresh_module bus r threshold timeout_ms) = r"
  "channels (fresh_module bus r threshold timeout_ms) = 1"
  "last_speech_time (fresh_module bus r threshold timeout_ms) = None"
  by (simp_all add: fresh_module_def WakeWordVADModule_start_def WakeWordVADModule_init_def)

lemma speech_end_step:
  assumes inv: "segmentation_inv m"
    and sp: "speech_detected m"
    and last: "last_speech_time m = Some t0"
    and even: "even (length chunk)"
    and silent: "\<not> chunk_is_speech m chunk"
    and late: "silence_timeout_ms m \<le> t - t0"
  shows "loop_body t chunk m =
           m\<lparr>event_bus := emit (event_bus m) ''audio_ready_for_stt''
                  (audio_ready_payload m
                     (tobytes (items (deque_extend (speech_buffer m) (samples_of chunk))))),
              speech_buffer := \<lparr>items = [], maxlen = maxlen (speech_buffer m)\<rparr>,
              vad_buffer := deque_extend (vad_buffer m) (samples_of chunk),
              speech_detected := False,
              last_speech_time := None\<rparr>"
proof -
  from inv sp last have t0: "t0 \<noteq> 0" by (auto simp: segmentation_inv_def)
  from segmentation_inv_extended [OF inv even silent] sp
  have ne: "items (deque_extend (speech_buffer m) (samples_of chunk)) \<noteq> []"
    by (simp add: segmentation_inv_def)
  have step: "loop_body t chunk m = handle_speech_end (extended m chunk)"
    using even silent sp last t0 late by (simp add: loop_body_cases)
  have p: "audio_ready_payload (extended m chunk) = audio_ready_payload m"
    by (rule audio_ready_payload_cong) simp_all
  show ?thesis
    unfolding step
    using ne
    by (simp add: handle_speech_end_def Let_def p deque_clear_def)
qed

text \<open>
  Claim C1, amended.  Let the module, run from its initial state over chunks \<open>pre\<close> with
  non-zero clock readings, be in state \<open>SPEAKING\<close> with last speech time \<open>t0\<close>, and let it
  then be fed a well-framed chunk that is classified silent, at a time \<open>t\<close> with
  \<open>t - t0 \<ge> silence_timeout_ms\<close>, followed by chunks \<open>post\<close> that are all classified
  silent.  Then that chunk publishes one \<open>audio_ready_for_stt\<close>, whose \<open>audio_data\<close> has
  \<open>sample_width\<close> bytes for each sample fed since the utterance buffer was last cleared
  (at the start of the module or by the previous \<open>audio_ready_for_stt\<close>, not at
  \<open>speech_start\<close>), bounded by the \<open>10 * rate\<close> samples of the buffer; after that chunk
  the state is \<open>SILENT\<close> and the utterance buffer is empty; and the chunks of \<open>post\<close>
  publish nothing and leave the state \<open>SILENT\<close>.
\<close>

theorem speech_end_emits_buffer:
  assumes times: "\<forall>(t, chunk) \<in> set pre. t \<noteq> 0"
    and sp: "speech_detected (loop pre (fresh_module bus r threshold timeout_ms))"
    and last: "last_speech_time (loop pre (fresh_module bus r threshold timeout_ms)) = Some t0"
    and even: "even (length chunk)"
    and silent: "\<not> chunk_is_speech (loop pre (fresh_module bus r threshold timeout_ms)) chunk"
    and late: "timeout_ms \<le> t - t0"
    and post: "all_silent post (loop (pre @ [(t, chunk)]) (fresh_module bus r threshold timeout_ms))"
  shows "event_bus (loop (pre @ [(t, chunk)]) (fresh_module bus r threshold timeout_ms))
           = emit (event_bus (loop pre (fresh_module bus r threshold timeout_ms)))
               ''audio_ready_for_stt''
               (audio_ready_payload (fresh_module bus r threshold timeout_ms)
                  (tobytes (items (deque_extend \<lparr>items = [], maxlen = r * 10\<rparr>
                     (since_clear pre (fresh_module bus r threshold timeout_ms) []
                        @ samples_of chunk)))))
         \<and> length (tobytes (items (deque_extend \<lparr>items = [], maxlen = r * 10\<rparr>
                     (since_clear pre (fresh_module bus r threshold timeout_ms) []
                        @ samples_of chunk))))
             = sample_width (fresh_module bus r threshold timeout_ms)
               * min (r * 10)
                   (length (since_clear pre (fresh_module bus r threshold timeout_ms) [])
                    + length (samples_of chunk))
         \<and> \<not> speech_detected (loop (pre @ [(t, chunk)]) (fresh_module bus r threshold timeout_ms))
         \<and> items (speech_buffer (loop (pre @ [(t, chunk)]) (fresh_module bus r threshold timeout_ms))) = []
         \<and> event_bus (loop (pre @ (t, chunk) # post) (fresh_module bus r threshold timeout_ms))
             = event_bus (loop (pre @ [(t, chunk)]) (fresh_module bus r threshold timeout_ms))
         \<and> \<not> speech_detected (loop (pre @ (t, chunk) # post) (fresh_module bus r threshold timeout_ms))"
proof -
  let ?fresh = "fresh_module bus r threshold timeout_ms"
  let ?m = "loop pre ?fresh"
  let ?empty = "\<lparr>items = [], maxlen = r * 10\<rparr> :: int16 deque"
  let ?acc = "since_clear pre ?fresh []"
  have run0: "running ?fresh" by (simp add: fresh_module_fields)
  have inv: "segmentation_inv ?m"
    using segmentation_inv_loop [OF segmentation_inv_fresh times] .
  have "speech_buffer ?fresh = deque_extend ?empty []"
    by (simp add: fresh_module_fields deque_extend_def)
  from speech_buffer_since_clear [OF run0 this, of pre]
  have buf: "speech_buffer ?m = deque_extend ?empty ?acc" .
  have late': "silence_timeout_ms ?m \<le> t - t0"
    using late by (simp add: fresh_module_fields)
  have pay: "audio_ready_payload ?m = audio_ready_payload ?fresh"
    by (rule audio_ready_payload_cong) simp_all
  have one: "loop (pre @ [(t, chunk)]) ?fresh = loop_body t chunk ?m"
    using loop_append [OF run0, of pre "[(t, chunk)]"] run0 by simp
  note step = speech_end_step [OF inv sp last even silent late']
  have ext: "deque_extend (speech_buffer ?m) (samples_of chunk)
               = deque_extend ?empty (?acc @ samples_of chunk)"
    by (simp add: buf deque_extend_extend)
  have bus1: "event_bus (loop (pre @ [(t, chunk)]) ?fresh)
           = emit (event_bus ?m) ''audio_ready_for_stt''
               (audio_ready_payload ?fresh
                  (tobytes (items (deque_extend ?empty (?acc @ samples_of chunk)))))"
    unfolding one step by (simp add: pay ext)
  have len: "length (tobytes (items (deque_extend ?empty (?acc @ samples_of chunk))))
             = sample_width ?fresh * min (r * 10) (length ?acc + length (samples_of chunk))"
    by (simp add: length_tobytes length_deque_extend fresh_module_fields)
  have sil1: "\<not> speech_detected (loop (pre @ [(t, chunk)]) ?fresh)"
    and emp1: "items (speech_buffer (loop (pre @ [(t, chunk)]) ?fresh)) = []"
    unfolding one step by simp_all
  have run1: "running (loop (pre @ [(t, chunk)]) ?fresh)" using run0 by simp
  have all: "loop (pre @ (t, chunk) # post) ?fresh = loop post (loop (pre @ [(t, chunk)]) ?fresh)"
    using loop_append [OF run0, of "pre @ [(t, chunk)]" post] run0 by simp
  from silent_run_idle [OF run1 sil1 post]
  have after: "\<not> speech_detected (loop (pre @ (t, chunk) # post) ?fresh)"
    "event_bus (loop (pre @ (t, chunk) # post) ?fresh) = event_bus (loop (pre @ [(t, chunk)]) ?fresh)"
    unfolding all by simp_all
  from bus1 len sil1 emp1 after show ?thesis by blast
qed

lemma frombuffer_silence: "frombuffer silence_chunk = Inr [0, 0, 0, 0]"
  by (simp add: frombuffer_def silence_chunk_def)

lemma frombuffer_speech: "frombuffer speech_chunk = Inr [16384, - 16384, 16384, 16384]"
  by (simp add: frombuffer_def speech_chunk_def)

lemma criteria_silence: "criteria_met (1 / 100) [0, 0, 0, 0] = 0"
  by (simp add: criteria_met_def energy_ok_def rms_energy_def normalized_def zcr_ok_def zcr_def
      zero_crossings_def spectral_ok_def spectral_centroid_def)

lemma sint_16384: "sint (16384 :: int16) = 16384" "sint (- 16384 :: int16) = - 16384"
  by simp_all

lemma energy_speech: "energy_ok (1 / 100) [16384, - 16384, 16384, 16384]"
proof -
  have "rms_energy [16384, - 16384, 16384, 16384] = sqrt ((1 / 2)\<^sup>2)"
    by (simp add: rms_energy_def normalized_def power2_eq_square)
  also have "\<dots> = 1 / 2" by (simp only: real_sqrt_abs)
  finally show ?thesis by (simp add: energy_ok_def)
qed

lemma zcr_speech: "zcr_ok [16384, - 16384, 16384, 16384]"
  by (simp add: zcr_ok_def zcr_def zero_crossings_def)

lemma criteria_speech: "2 \<le> criteria_met (1 / 100) [16384, - 16384, 16384, 16384]"
  using energy_speech zcr_speech by (simp add: criteria_met_def)

lemma example_fields:
  "running example_module" "\<not> speech_detected example_module"
  "vad_threshold example_module = 1 / 100" "silence_timeout_ms example_module = 1000"
  "speech_buffer example_module = \<lparr>items = [], maxlen = 400\<rparr>"
  "vad_buffer example_module = \<lparr>items = [], maxlen = 4\<rparr>"
  "last_speech_time example_module = None"
  "event_bus example_module = EventBus_init"
  by (simp_all add: example_module_def fresh_module_fields)

lemma samples_of_silence: "samples_of silence_chunk = [0, 0, 0, 0]"
  by (simp add: samples_of_def frombuffer_silence)

lemma samples_of_speech: "samples_of speech_chunk = [16384, - 16384, 16384, 16384]"
  by (simp add: samples_of_def frombuffer_speech)

lemma silence_not_speech:
  assumes "maxlen (vad_buffer m) = 4" and "vad_threshold m = 1 / 100"
    and "length (items (vad_buffer m)) \<le> 4"
  shows "\<not> chunk_is_speech m silence_chunk"
  by (simp add: chunk_is_speech_def frombuffer_silence is_speech_eq deque_extend_def Let_def
      criteria_silence assms)

lemma speech_is_speech:
  assumes "maxlen (vad_buffer m) = 4" and "vad_threshold m = 1 / 100"
    and "length (items (vad_buffer m)) \<le> 4"
  shows "chunk_is_speech m speech_chunk"
  by (simp add: chunk_is_speech_def frombuffer_speech is_speech_eq deque_extend_def Let_def
      criteria_speech assms)

lemma example_first_chunk: "loop_body 1000 silence_chunk example_module = example_after_silence"
proof -
  have "\<not> chunk_is_speech example_module silence_chunk"
    by (rule silence_not_speech) (simp_all add: example_fields)
  then show ?thesis
    by (simp add: loop_body_silent Let_def example_fields frombuffer_silence samples_of_silence
        deque_extend_def example_after_silence_def)
qed

lemma example_second_chunk: "loop_body 2000 speech_chunk example_after_silence = example_speaking"
proof -
  have "chunk_is_speech example_after_silence speech_chunk"
    by (rule speech_is_speech) (simp_all add: example_after_silence_def example_fields)
  then show ?thesis
    by (simp add: loop_body_speech samples_of_speech handle_speech_start_def
        deque_extend_def example_after_silence_def example_speaking_def example_fields)
qed

lemma tobytes_example:
  "tobytes [0, 0, 0, 0, 16384, - 16384, 16384, 16384, 0, 0, 0, 0]
     = silence_chunk @ speech_chunk @ silence_chunk"
  by (simp add: tobytes_def silence_chunk_def speech_chunk_def)

lemma example_third_chunk:
  "loop_body 3000 silence_chunk example_speaking =
     example_module\<lparr>event_bus := emit (emit EventBus_init ''speech_start'' (PDict []))
                       ''audio_ready_for_stt''
                       (PDict [(''audio_data'', PBytes (silence_chunk @ speech_chunk @ silence_chunk)),
                               (''sample_rate'', PInt 40), (''sample_width'', PInt 2),
                               (''channels'', PInt 1)]),
                    speech_buffer := \<lparr>items = [], maxlen = 400\<rparr>,
                    vad_buffer := \<lparr>items = [0, 0, 0, 0], maxlen = 4\<rparr>,
                    speech_detected := False,
                    last_speech_time := None\<rparr>"
proof -
  have "\<not> chunk_is_speech example_speaking silence_chunk"
    by (rule silence_not_speech) (simp_all add: example_speaking_def example_fields)
  then show ?thesis
    by (simp add: loop_body_silent Let_def frombuffer_silence samples_of_silence
        deque_extend_def deque_clear_def example_speaking_def example_fields handle_speech_end_def
        audio_ready_payload_def tobytes_example
        example_module_def fresh_module_def WakeWordVADModule_start_def WakeWordVADModule_init_def)
qed

lemma example_running:
  "running example_after_silence" "running example_speaking" "running example_ended"
  by (simp_all add: example_after_silence_def example_speaking_def example_ended_def
      example_fields)

lemma example_third_chunk_ended: "loop_body 3000 silence_chunk example_speaking = example_ended"
  by (simp only: example_third_chunk example_ended_def)

lemma example_runs:
  "loop [(1000, silence_chunk)] example_module = example_after_silence"
  "loop [(1000, silence_chunk), (2000, speech_chunk)] example_module = example_speaking"
  "loop [(1000, silence_chunk), (2000, speech_chunk), (3000, silence_chunk)] example_module
     = example_ended"
  by (simp_all add: example_first_chunk example_second_chunk example_third_chunk_ended example_fields(1) example_running)

lemma example_queues:
  "default_queue (event_bus example_after_silence) = []"
  "default_queue (event_bus example_speaking)
     = [\<lparr>ev_type = ''speech_start'', ev_payload = PDict []\<rparr>]"
  "default_queue (event_bus example_ended)
     = [\<lparr>ev_type = ''speech_start'', ev_payload = PDict []\<rparr>,
        \<lparr>ev_type = ''audio_ready_for_stt'',
         ev_payload = PDict [(''audio_data'', PBytes (silence_chunk @ speech_chunk @ silence_chunk)),
                             (''sample_rate'', PInt 40), (''sample_width'', PInt 2),
                             (''channels'', PInt 1)]\<rparr>]"
  by (simp_all add: example_after_silence_def example_speaking_def example_ended_def
      example_fields emit_def EventBus_init_def)

text \<open>
  Claim C1, as stated, fails: the utterance buffer is extended by every chunk, also in state
  \<open>SILENT\<close>, and is cleared only when an utterance ends, so the payload holds the samples
  that came before \<open>speech_start\<close> as well.  In the run below the first chunk is silent,
  the second publishes \<open>speech_start\<close>, and the third, silent and 1000 ms later, publishes
  \<open>audio_ready_for_stt\<close> with the 24 bytes of all three chunks, while the two chunks since
  \<open>speech_start\<close> hold 8 samples, 16 bytes.
\<close>

theorem payload_includes_earlier_samples_counterexample:
  "default_queue (event_bus (loop [(1000, silence_chunk)] example_module)) = []
   \<and> default_queue (event_bus (loop [(1000, silence_chunk), (2000, speech_chunk)] example_module))
       = [\<lparr>ev_type = ''speech_start'', ev_payload = PDict []\<rparr>]
   \<and> default_queue (event_bus (loop [(1000, silence_chunk), (2000, speech_chunk),
                                      (3000, silence_chunk)] example_module))
       = [\<lparr>ev_type = ''speech_start'', ev_payload = PDict []\<rparr>,
          \<lparr>ev_type = ''audio_ready_for_stt'',
           ev_payload = PDict [(''audio_data'', PBytes (silence_chunk @ speech_chunk @ silence_chunk)),
                               (''sample_rate'', PInt 40), (''sample_width'', PInt 2),
                               (''channels'', PInt 1)]\<rparr>]
   \<and> length (silence_chunk @ speech_chunk @ silence_chunk) = 24
   \<and> sample_width example_module
         * (length (samples_of speech_chunk) + length (samples_of silence_chunk)) = 16"
proof -
  have "length (silence_chunk @ speech_chunk @ silence_chunk) = 24"
    by (simp add: silence_chunk_def speech_chunk_def)
  moreover have "sample_width example_module
         * (length (samples_of speech_chunk) + length (samples_of silence_chunk)) = 16"
    by (simp add: samples_of_silence samples_of_speech example_module_def fresh_module_fields)
  ultimately show ?thesis
    by (simp only: example_runs example_queues simp_thms)
qed

lemma zero_crossings_plus_sign_changes:
  "zero_crossings pcm + sign_changes pcm = length pcm - 1"
proof -
  let ?same = "\<lambda>(cur :: int16, prev :: int16). (0 \<le> sint cur) \<noteq> (sint prev < 0)"
  let ?pairs = "zip (tl pcm) (butlast pcm)"
  have split: "length (filter P xs) + length (filter (\<lambda>x. \<not> P x) xs) = length xs"
    for P and xs :: "(int16 \<times> int16) list"
    by (induction xs) auto
  have "sign_changes pcm = length (filter (\<lambda>x. \<not> ?same x) ?pairs)"
    unfolding sign_changes_def
    by (rule arg_cong [where f = length], rule filter_cong) auto
  moreover have "zero_crossings pcm = length (filter ?same ?pairs)"
    by (simp add: zero_crossings_def)
  moreover have "length ?pairs = length pcm - 1" by simp
  ultimately show ?thesis using split [of ?same ?pairs] by simp
qed

lemma zcr_complement:
  assumes "2 \<le> length pcm"
  shows "zcr pcm = 1 - sign_change_fraction pcm"
proof -
  have "real (zero_crossings pcm) + real (sign_changes pcm) = real (length pcm - 1)"
    using zero_crossings_plus_sign_changes [of pcm] by (metis of_nat_add)
  moreover have "real (length pcm - 1) > 0" using assms by simp
  ultimately show ?thesis
    using assms by (simp add: zcr_def sign_change_fraction_def field_simps)
qed

text \<open>
  Claim C2.  The code does not compute the fraction of sign changes.  The pairs it counts are
  those with \<open>(cur >= 0) != (prev < 0)\<close>, which are the pairs of equal sign, so that its
  rate is one minus the fraction of sign changes (\<open>zcr_complement\<close>).  On the window
  \<open>1, 1, 1, 1, -1\<close> the sign changes once in four pairs: the fraction \<open>1/4\<close> lies
  strictly inside the band, yet the code computes \<open>3/4\<close> and its criterion is not
  satisfied.
\<close>

theorem zcr_counts_unchanged_signs:
  "zcr [1, 1, 1, 1, - 1] = 3 / 4
   \<and> \<not> zcr_ok [1, 1, 1, 1, - 1]
   \<and> sign_change_fraction [1, 1, 1, 1, - 1] = 1 / 4
   \<and> (0.1 :: real) < 1 / 4 \<and> (1 / 4 :: real) < 0.5"
  by (simp add: zcr_ok_def zcr_def zero_crossings_def sign_change_fraction_def sign_changes_def)

lemma example_not_speech:
  "\<not> chunk_is_speech example_module silence_chunk"
  "\<not> chunk_is_speech example_after_silence silence_chunk"
  "\<not> chunk_is_speech example_speaking silence_chunk"
  "\<not> chunk_is_speech example_ended silence_chunk"
  by (rule silence_not_speech;
      simp add: example_fields example_after_silence_def example_speaking_def example_ended_def)+

text \<open>
  Claim C7.  From the initial state, when every chunk of a sequence is classified silent, then
  after every prefix of the sequence the state is still \<open>SILENT\<close> and the bus is the one
  the module started with: no \<open>speech_start\<close>, no \<open>audio_ready_for_stt\<close>, nothing at
  all has been published.
\<close>

theorem all_silent_stays_silent:
  assumes "all_silent (pre @ post) (fresh_module bus r threshold timeout_ms)"
  shows "\<not> speech_detected (loop pre (fresh_module bus r threshold timeout_ms))
         \<and> event_bus (loop pre (fresh_module bus r threshold timeout_ms)) = bus"
proof -
  let ?fresh = "fresh_module bus r threshold timeout_ms"
  have r: "running ?fresh" and s: "\<not> speech_detected ?fresh" and b: "event_bus ?fresh = bus"
    by (simp_all add: fresh_module_fields)
  from assms have "all_silent pre ?fresh" by (simp add: all_silent_append r)
  from silent_run_idle [OF r s this] b show ?thesis by simp
qed

theorem all_silent_stays_silent_witness:
  "all_silent ([(1000, silence_chunk), (1032, silence_chunk)] @ [])
     (fresh_module EventBus_init 40 (1 / 100) 1000)
   \<and> \<not> speech_detected (loop [(1000, silence_chunk), (1032, silence_chunk)]
                           (fresh_module EventBus_init 40 (1 / 100) 1000))
   \<and> event_bus (loop [(1000, silence_chunk), (1032, silence_chunk)]
                  (fresh_module EventBus_init 40 (1 / 100) 1000)) = EventBus_init"
proof -
  have a: "all_silent ([(1000, silence_chunk), (1032, silence_chunk)] @ [])
     (fresh_module EventBus_init 40 (1 / 100) 1000)"
    using example_not_speech by (simp add: example_module_def [symmetric] example_first_chunk)
  from all_silent_stays_silent [OF a] a show ?thesis by simp
qed

lemma example_speaking_fields:
  "speech_detected example_speaking" "last_speech_time example_speaking = Some 2000"
  "speech_buffer example_speaking
     = \<lparr>items = [0, 0, 0, 0, 16384, - 16384, 16384, 16384], maxlen = 400\<rparr>"
  "silence_timeout_ms example_speaking = 1000"
  "event_bus example_speaking = emit EventBus_init ''speech_start'' (PDict [])"
  by (simp_all add: example_speaking_def example_fields)

theorem short_gap_keeps_speaking_witness:
  "all_silent ([(2500, silence_chunk)] @ []) example_speaking
   \<and> event_bus (loop [(2500, silence_chunk)] example_speaking)
       = emit EventBus_init ''speech_start'' (PDict [])
   \<and> speech_detected (loop [(2500, silence_chunk)] example_speaking)
   \<and> items (speech_buffer (loop [(2500, silence_chunk)] example_speaking))
       = [0, 0, 0, 0, 16384, - 16384, 16384, 16384, 0, 0, 0, 0]"
proof -
  have r: "running example_speaking" by (rule example_running)
  have l: "length (items (speech_buffer example_speaking)) \<le> maxlen (speech_buffer example_speaking)"
    by (simp add: example_speaking_fields)
  have a: "all_silent ([(2500, silence_chunk)] @ []) example_speaking"
    using example_not_speech by simp
  have t: "\<forall>(t, chunk) \<in> set ([(2500, silence_chunk)] @ []). t - 2000 < silence_timeout_ms example_speaking"
    by (simp add: example_speaking_fields)
  from short_gap_keeps_speaking [OF r example_speaking_fields(1,2) l a t] a
  show ?thesis
    by (simp add: example_speaking_fields samples_of_silence deque_extend_def)
qed

lemma example_since_clear:
  "since_clear [(1000, silence_chunk), (2000, speech_chunk)] example_module []
     = [0, 0, 0, 0, 16384, - 16384, 16384, 16384]"
  by (simp add: example_first_chunk example_second_chunk example_fields example_speaking_fields samples_of_silence
      samples_of_speech)

theorem speech_end_emits_buffer_witness:
  "speech_detected (loop [(1000, silence_chunk), (2000, speech_chunk)]
                      (fresh_module EventBus_init 40 (1 / 100) 1000))
   \<and> \<not> chunk_is_speech (loop [(1000, silence_chunk), (2000, speech_chunk)]
                            (fresh_module EventBus_init 40 (1 / 100) 1000)) silence_chunk
   \<and> event_bus (loop ([(1000, silence_chunk), (2000, speech_chunk)] @ [(3000, silence_chunk)])
                  (fresh_module EventBus_init 40 (1 / 100) 1000))
       = emit (emit EventBus_init ''speech_start'' (PDict [])) ''audio_ready_for_stt''
           (audio_ready_payload (fresh_module EventBus_init 40 (1 / 100) 1000)
              (silence_chunk @ speech_chunk @ silence_chunk))
   \<and> length (silence_chunk @ speech_chunk @ silence_chunk) = 2 * min 400 (8 + 4)
   \<and> event_bus (loop ([(1000, silence_chunk), (2000, speech_chunk)]
                        @ (3000, silence_chunk) # [(3500, silence_chunk)])
                  (fresh_module EventBus_init 40 (1 / 100) 1000))
       = event_bus (loop ([(1000, silence_chunk), (2000, speech_chunk)] @ [(3000, silence_chunk)])
                      (fresh_module EventBus_init 40 (1 / 100) 1000))
   \<and> \<not> speech_detected (loop ([(1000, silence_chunk), (2000, speech_chunk)]
                                @ (3000, silence_chunk) # [(3500, silence_chunk)])
                           (fresh_module EventBus_init 40 (1 / 100) 1000))"
proof -
  let ?pre = "[(1000 :: real, silence_chunk), (2000, speech_chunk)]"
  let ?fresh = "fresh_module EventBus_init 40 (1 / 100) 1000"
  have pre: "loop ?pre ?fresh = example_speaking"
    using example_runs(2) by (simp add: example_module_def)
  have times: "\<forall>(t, chunk) \<in> set ?pre. t \<noteq> 0" by simp
  have sp: "speech_detected (loop ?pre ?fresh)" by (simp only: pre example_speaking_fields)
  have last: "last_speech_time (loop ?pre ?fresh) = Some 2000"
    by (simp only: pre example_speaking_fields)
  have even: "even (length silence_chunk)" by (simp add: silence_chunk_def)
  have silent: "\<not> chunk_is_speech (loop ?pre ?fresh) silence_chunk"
    by (simp only: pre example_not_speech simp_thms)
  have late: "(1000 :: real) \<le> 3000 - 2000" by simp
  have "loop (?pre @ [(3000, silence_chunk)]) ?fresh = example_ended"
    using example_runs(3) by (simp add: example_module_def)
  then have post: "all_silent [(3500, silence_chunk)] (loop (?pre @ [(3000, silence_chunk)]) ?fresh)"
    using example_not_speech(4) by simp
  have sc: "since_clear ?pre ?fresh [] = [0, 0, 0, 0, 16384, - 16384, 16384, 16384]"
    using example_since_clear by (simp add: example_module_def)
  have bus: "event_bus (loop ?pre ?fresh) = emit EventBus_init ''speech_start'' (PDict [])"
    by (simp only: pre example_speaking_fields)
  have ext: "items (deque_extend \<lparr>items = [], maxlen = 40 * 10\<rparr>
               ([0, 0, 0, 0, 16384, - 16384, 16384, 16384] @ samples_of silence_chunk))
             = [0, 0, 0, 0, 16384, - 16384, 16384, 16384, 0, 0, 0, 0 :: int16]"
    by (simp add: samples_of_silence deque_extend_def)
  from speech_end_emits_buffer [OF times sp last even silent late post] sp silent
  show ?thesis
    unfolding sc bus ext tobytes_example
    by (simp add: silence_chunk_def speech_chunk_def)
qed

end
